theory Spec2Isabelle
  imports Complex_Main "HOL-Library.AList"
begin

section \<open>Signed distance functions of the sdf package\<close>

text \<open>
  The package builds 2D and 3D shapes as trees of signed distance functions. Every node
  answers two methods, \<open>Evaluate\<close> (the signed distance at a point) and \<open>BoundingBox\<close>.

  The Go type \<open>float64\<close> is read as the type of real numbers, in line with the exact
  arithmetic that the spec gives its vectors, boxes and matrices: sums, products, square
  roots, trigonometric functions and comparisons are the exact ones, and the values NaN
  and the infinities are not represented. The constant \<open>math.MaxFloat64\<close> is the real
  number it denotes. Where a property depends on the rounding of \<open>float64\<close>, the rounded
  operations of the subsection on rounded arithmetic are used, and the property says so.
  The Go type \<open>int\<close> is read as \<open>int\<close>; the only arithmetic on it is
  \<open>num - 1\<close> on a positive count and a loop counter below such a count.

  The vector, box and matrix types and the helper functions on them are declared outside
  src/ and are modelled from the spec; the node types, their constructors and their
  methods \<open>Evaluate\<close> and \<open>BoundingBox\<close> follow src/. The mutators \<open>SetMin\<close> and \<open>SetMax\<close>,
  which replace the blend function of a node after its construction, and the adapter
  \<open>PtSDF\<close> to the external ray tracer are left out: the properties below are about nodes
  as their constructors build them.
\<close>

subsection \<open>Scalars\<close>

type_synonym float64 = real

text \<open>The constant \<open>math.MaxFloat64\<close> of the Go standard library.\<close>

definition MaxFloat64 :: float64 where
  "MaxFloat64 = (2 - 1 / 2 ^ 52) * 2 ^ 1023"

text \<open>Modelled from the spec: the constant \<open>PI\<close>, declared outside src/.\<close>

definition PI :: float64 where
  "PI = pi"

text \<open>Modelled from the spec: the constant \<open>TAU\<close>, the full turn \<open>2\<pi>\<close>, declared outside src/.\<close>

definition TAU :: float64 where
  "TAU = 2 * pi"

text \<open>Modelled from the spec: the helper \<open>Min\<close> on two distances, declared outside src/.\<close>

definition Min_f64 :: "float64 \<Rightarrow> float64 \<Rightarrow> float64" where
  "Min_f64 a b = min a b"

text \<open>Modelled from the spec: the helper \<open>Max\<close> on two distances, declared outside src/.\<close>

definition Max_f64 :: "float64 \<Rightarrow> float64 \<Rightarrow> float64" where
  "Max_f64 a b = max a b"

text \<open>Modelled from the spec: the helper \<open>Abs\<close>, declared outside src/.\<close>

definition Abs_f64 :: "float64 \<Rightarrow> float64" where
  "Abs_f64 a = \<bar>a\<bar>"

text \<open>Modelled from the spec: the types \<open>MinFunc\<close> and \<open>MaxFunc\<close>, declared outside src/; a
  blend function takes two distances and the blend parameter, as the calls \<open>s.min(a, b, s.k)\<close>
  and \<open>s.max(a, b, s.k)\<close> in src/ do.\<close>

type_synonym MinFunc = "float64 \<Rightarrow> float64 \<Rightarrow> float64 \<Rightarrow> float64"

type_synonym MaxFunc = "float64 \<Rightarrow> float64 \<Rightarrow> float64 \<Rightarrow> float64"

text \<open>Modelled from the spec: \<open>NormalMin\<close>, declared outside src/; the default blend is the
  exact minimum and the parameter \<open>k\<close> is unused.\<close>

definition NormalMin :: MinFunc where
  "NormalMin a b k = Min_f64 a b"

text \<open>Modelled from the spec: \<open>NormalMax\<close>, declared outside src/; the default blend is the
  exact maximum and the parameter \<open>k\<close> is unused.\<close>

definition NormalMax :: MaxFunc where
  "NormalMax a b k = Max_f64 a b"

text \<open>\<open>math.Mod\<close> of the Go standard library: the remainder of the truncated quotient,
  with the sign of \<open>x\<close>.\<close>

definition Mod_f64 :: "float64 \<Rightarrow> float64 \<Rightarrow> float64" where
  "Mod_f64 x y =
     (if 0 \<le> x / y then x - y * of_int \<lfloor>x / y\<rfloor> else x - y * of_int \<lceil>x / y\<rceil>)"

text \<open>\<open>math.Atan2\<close> of the Go standard library: the angle of the point \<open>(x, y)\<close> in
  \<open>(-\<pi>, \<pi>]\<close>.\<close>

definition Atan2 :: "float64 \<Rightarrow> float64 \<Rightarrow> float64" where
  "Atan2 y x =
     (if 0 < x then arctan (y / x)
      else if x < 0 \<and> 0 \<le> y then arctan (y / x) + pi
      else if x < 0 then arctan (y / x) - pi
      else if 0 < y then pi / 2
      else if y < 0 then - (pi / 2)
      else 0)"

text \<open>Modelled from the spec: \<open>SawTooth\<close>, declared outside src/; the sawtooth reduction of
  an angle into the sector \<open>[0, period)\<close>.\<close>

definition SawTooth :: "float64 \<Rightarrow> float64 \<Rightarrow> float64" where
  "SawTooth x period = x - period * of_int \<lfloor>x / period\<rfloor>"

subsection \<open>The structures of the 3MF output\<close>

text \<open>The structs that \<open>Save3MF\<close> encodes, with their fields.\<close>

record ThreeMFVertex =
  X :: float64
  Y :: float64
  Z :: float64

record ThreeMFTriangle =
  V1 :: int
  V2 :: int
  V3 :: int

record ThreeMFMesh =
  Vertices :: "ThreeMFVertex list"
  Triangles :: "ThreeMFTriangle list"

record ThreeMFObject =
  ID :: string
  Type :: string
  Mesh :: ThreeMFMesh

record ThreeMFItem =
  ObjectID :: string

record ThreeMFModel =
  Lang :: string
  Schema :: string
  Unit :: string
  Resources :: "ThreeMFObject list"
  Build :: "ThreeMFItem list"

subsection \<open>Vectors\<close>

text \<open>Modelled from the spec: the types \<open>V2\<close> and \<open>V3\<close>, declared outside src/; an ordered
  pair and an ordered triple of 64-bit floats with the fields \<open>X\<close>, \<open>Y\<close> and \<open>Z\<close> that src/
  reads. The constructors are the positional composite literals \<open>V2{x, y}\<close> and
  \<open>V3{x, y, z}\<close> of src/.\<close>

datatype V2 = V2 (X: float64) (Y: float64)

datatype V3 = V3 (X: float64) (Y: float64) (Z: float64)

text \<open>Modelled from the spec: the types \<open>V2i\<close> and \<open>V3i\<close> of counts and \<open>V2Set\<close> and
  \<open>V3Set\<close> of vertices, declared outside src/. src/ reads a count by position, \<open>num[0]\<close>,
  \<open>num[1]\<close>, \<open>num[2]\<close>, and ranges over and indexes a vertex set as a slice.\<close>

type_synonym V2i = "int \<times> int"

type_synonym V3i = "int \<times> int \<times> int"

type_synonym V2Set = "V2 list"

type_synonym V3Set = "V3 list"

text \<open>Modelled from the spec: \<open>PolarToXY\<close>, declared outside src/; the point at radius \<open>r\<close>
  and angle \<open>theta\<close>.\<close>

definition PolarToXY :: "float64 \<Rightarrow> float64 \<Rightarrow> V2" where
  "PolarToXY r theta = V2 (r * cos theta) (r * sin theta)"

text \<open>Modelled from the spec: the componentwise arithmetic of \<open>V2\<close>, declared outside src/.\<close>

definition V2_Add :: "V2 \<Rightarrow> V2 \<Rightarrow> V2" where
  "V2_Add a b = V2 (V2.X a + V2.X b) (V2.Y a + V2.Y b)"

text \<open>Modelled from the spec: \<open>V2.Sub\<close>, componentwise, declared outside src/.\<close>

definition V2_Sub :: "V2 \<Rightarrow> V2 \<Rightarrow> V2" where
  "V2_Sub a b = V2 (V2.X a - V2.X b) (V2.Y a - V2.Y b)"

text \<open>Modelled from the spec: \<open>V2.Mul\<close>, componentwise, declared outside src/.\<close>

definition V2_Mul :: "V2 \<Rightarrow> V2 \<Rightarrow> V2" where
  "V2_Mul a b = V2 (V2.X a * V2.X b) (V2.Y a * V2.Y b)"

text \<open>Modelled from the spec: \<open>V2.Negate\<close>, declared outside src/.\<close>

definition V2_Negate :: "V2 \<Rightarrow> V2" where
  "V2_Negate a = V2 (- V2.X a) (- V2.Y a)"

text \<open>Modelled from the spec: \<open>V2.Abs\<close>, componentwise, declared outside src/.\<close>

definition V2_Abs :: "V2 \<Rightarrow> V2" where
  "V2_Abs a = V2 (Abs_f64 (V2.X a)) (Abs_f64 (V2.Y a))"

text \<open>Modelled from the spec: \<open>V2.MulScalar\<close>, declared outside src/.\<close>

definition V2_MulScalar :: "V2 \<Rightarrow> float64 \<Rightarrow> V2" where
  "V2_MulScalar a b = V2 (V2.X a * b) (V2.Y a * b)"

text \<open>Modelled from the spec: \<open>V2.AddScalar\<close>, declared outside src/.\<close>

definition V2_AddScalar :: "V2 \<Rightarrow> float64 \<Rightarrow> V2" where
  "V2_AddScalar a b = V2 (V2.X a + b) (V2.Y a + b)"


text \<open>Modelled from the spec: \<open>V2.Dot\<close>, the dot product, declared outside src/.\<close>

definition V2_Dot :: "V2 \<Rightarrow> V2 \<Rightarrow> float64" where
  "V2_Dot a b = V2.X a * V2.X b + V2.Y a * V2.Y b"

text \<open>Modelled from the spec: \<open>V2.Length2\<close>, the squared length, declared outside src/.\<close>

definition V2_Length2 :: "V2 \<Rightarrow> float64" where
  "V2_Length2 a = V2.X a * V2.X a + V2.Y a * V2.Y a"

text \<open>Modelled from the spec: \<open>V2.Length\<close>, declared outside src/.\<close>

definition V2_Length :: "V2 \<Rightarrow> float64" where
  "V2_Length a = sqrt (V2_Length2 a)"

text \<open>Modelled from the spec: \<open>V2.Normalize\<close>, declared outside src/; the spec asks for a
  defined result on the zero vector, taken here to be the zero vector.\<close>

definition V2_Normalize :: "V2 \<Rightarrow> V2" where
  "V2_Normalize a = (let l = V2_Length a in if l = 0 then V2 0 0 else V2_MulScalar a (1 / l))"

text \<open>Modelled from the spec: \<open>V2.Min\<close>, the componentwise minimum, declared outside src/.\<close>

definition V2_Min :: "V2 \<Rightarrow> V2 \<Rightarrow> V2" where
  "V2_Min a b = V2 (Min_f64 (V2.X a) (V2.X b)) (Min_f64 (V2.Y a) (V2.Y b))"

text \<open>Modelled from the spec: \<open>V2.Max\<close>, the componentwise maximum, declared outside src/.\<close>

definition V2_Max :: "V2 \<Rightarrow> V2 \<Rightarrow> V2" where
  "V2_Max a b = V2 (Max_f64 (V2.X a) (V2.X b)) (Max_f64 (V2.Y a) (V2.Y b))"

text \<open>Modelled from the spec: \<open>V2.Equals\<close>, declared outside src/; the two vectors coincide
  within the tolerance in each component.\<close>

definition V2_Equals :: "V2 \<Rightarrow> V2 \<Rightarrow> float64 \<Rightarrow> bool" where
  "V2_Equals a b tolerance =
     (Abs_f64 (V2.X a - V2.X b) \<le> tolerance \<and> Abs_f64 (V2.Y a - V2.Y b) \<le> tolerance)"

text \<open>Modelled from the spec: \<open>V2Set.Min\<close>, declared outside src/; the componentwise minimum
  of the set, starting from its first element. The empty set has no first element; the
  model returns the zero vector there.\<close>

definition V2Set_Min :: "V2Set \<Rightarrow> V2" where
  "V2Set_Min a = (case a of [] \<Rightarrow> V2 0 0 | v # vs \<Rightarrow> fold (\<lambda>w vmin. V2_Min vmin w) a v)"

text \<open>Modelled from the spec: \<open>V2Set.Max\<close>, declared outside src/; the componentwise maximum
  of the set, starting from its first element.\<close>

definition V2Set_Max :: "V2Set \<Rightarrow> V2" where
  "V2Set_Max a = (case a of [] \<Rightarrow> V2 0 0 | v # vs \<Rightarrow> fold (\<lambda>w vmax. V2_Max vmax w) a v)"

text \<open>Modelled from the spec: \<open>V2i.SubScalar\<close>, declared outside src/.\<close>

definition V2i_SubScalar :: "V2i \<Rightarrow> int \<Rightarrow> V2i" where
  "V2i_SubScalar a b = (fst a - b, snd a - b)"

text \<open>Modelled from the spec: \<open>V2i.ToV2\<close>, declared outside src/.\<close>

definition V2i_ToV2 :: "V2i \<Rightarrow> V2" where
  "V2i_ToV2 a = V2 (of_int (fst a)) (of_int (snd a))"

text \<open>Modelled from the spec: the componentwise arithmetic of \<open>V3\<close>, declared outside src/.\<close>

definition V3_Add :: "V3 \<Rightarrow> V3 \<Rightarrow> V3" where
  "V3_Add a b = V3 (V3.X a + V3.X b) (V3.Y a + V3.Y b) (V3.Z a + V3.Z b)"

text \<open>Modelled from the spec: \<open>V3.Sub\<close>, componentwise, declared outside src/.\<close>

definition V3_Sub :: "V3 \<Rightarrow> V3 \<Rightarrow> V3" where
  "V3_Sub a b = V3 (V3.X a - V3.X b) (V3.Y a - V3.Y b) (V3.Z a - V3.Z b)"

text \<open>Modelled from the spec: \<open>V3.Mul\<close>, componentwise, declared outside src/.\<close>

definition V3_Mul :: "V3 \<Rightarrow> V3 \<Rightarrow> V3" where
  "V3_Mul a b = V3 (V3.X a * V3.X b) (V3.Y a * V3.Y b) (V3.Z a * V3.Z b)"

text \<open>Modelled from the spec: \<open>V3.Negate\<close>, declared outside src/.\<close>

definition V3_Negate :: "V3 \<Rightarrow> V3" where
  "V3_Negate a = V3 (- V3.X a) (- V3.Y a) (- V3.Z a)"

text \<open>Modelled from the spec: \<open>V3.Abs\<close>, componentwise, declared outside src/.\<close>

definition V3_Abs :: "V3 \<Rightarrow> V3" where
  "V3_Abs a = V3 (Abs_f64 (V3.X a)) (Abs_f64 (V3.Y a)) (Abs_f64 (V3.Z a))"

text \<open>Modelled from the spec: \<open>V3.MulScalar\<close>, declared outside src/.\<close>

definition V3_MulScalar :: "V3 \<Rightarrow> float64 \<Rightarrow> V3" where
  "V3_MulScalar a b = V3 (V3.X a * b) (V3.Y a * b) (V3.Z a * b)"

text \<open>Modelled from the spec: \<open>V3.SubScalar\<close>, declared outside src/.\<close>

definition V3_SubScalar :: "V3 \<Rightarrow> float64 \<Rightarrow> V3" where
  "V3_SubScalar a b = V3 (V3.X a - b) (V3.Y a - b) (V3.Z a - b)"

text \<open>Modelled from the spec: \<open>V3.Dot\<close>, the dot product, declared outside src/.\<close>

definition V3_Dot :: "V3 \<Rightarrow> V3 \<Rightarrow> float64" where
  "V3_Dot a b = V3.X a * V3.X b + V3.Y a * V3.Y b + V3.Z a * V3.Z b"

text \<open>Modelled from the spec: \<open>V3.Cross\<close>, the cross product, declared outside src/.\<close>

definition V3_Cross :: "V3 \<Rightarrow> V3 \<Rightarrow> V3" where
  "V3_Cross a b =
     V3 (V3.Y a * V3.Z b - V3.Z a * V3.Y b)
        (V3.Z a * V3.X b - V3.X a * V3.Z b)
        (V3.X a * V3.Y b - V3.Y a * V3.X b)"

text \<open>Modelled from the spec: \<open>V3.Length\<close>, declared outside src/.\<close>

definition V3_Length :: "V3 \<Rightarrow> float64" where
  "V3_Length a = sqrt (V3.X a * V3.X a + V3.Y a * V3.Y a + V3.Z a * V3.Z a)"

text \<open>Modelled from the spec: \<open>V3.Normalize\<close>, declared outside src/; the zero vector is
  returned for the zero vector.\<close>

definition V3_Normalize :: "V3 \<Rightarrow> V3" where
  "V3_Normalize a = (let l = V3_Length a in if l = 0 then V3 0 0 0 else V3_MulScalar a (1 / l))"

text \<open>Modelled from the spec: \<open>V3.Min\<close>, the componentwise minimum, declared outside src/.\<close>

definition V3_Min :: "V3 \<Rightarrow> V3 \<Rightarrow> V3" where
  "V3_Min a b =
     V3 (Min_f64 (V3.X a) (V3.X b)) (Min_f64 (V3.Y a) (V3.Y b)) (Min_f64 (V3.Z a) (V3.Z b))"

text \<open>Modelled from the spec: \<open>V3.Max\<close>, the componentwise maximum, declared outside src/.\<close>

definition V3_Max :: "V3 \<Rightarrow> V3 \<Rightarrow> V3" where
  "V3_Max a b =
     V3 (Max_f64 (V3.X a) (V3.X b)) (Max_f64 (V3.Y a) (V3.Y b)) (Max_f64 (V3.Z a) (V3.Z b))"

text \<open>Modelled from the spec: \<open>V3.MaxComponent\<close>, the largest component, declared outside
  src/.\<close>

definition V3_MaxComponent :: "V3 \<Rightarrow> float64" where
  "V3_MaxComponent a = Max_f64 (Max_f64 (V3.X a) (V3.Y a)) (V3.Z a)"

text \<open>Modelled from the spec: \<open>V3Set.Min\<close>, declared outside src/; as for \<open>V2Set\<close>.\<close>

definition V3Set_Min :: "V3Set \<Rightarrow> V3" where
  "V3Set_Min a = (case a of [] \<Rightarrow> V3 0 0 0 | v # vs \<Rightarrow> fold (\<lambda>w vmin. V3_Min vmin w) a v)"

text \<open>Modelled from the spec: \<open>V3Set.Max\<close>, declared outside src/; as for \<open>V2Set\<close>.\<close>

definition V3Set_Max :: "V3Set \<Rightarrow> V3" where
  "V3Set_Max a = (case a of [] \<Rightarrow> V3 0 0 0 | v # vs \<Rightarrow> fold (\<lambda>w vmax. V3_Max vmax w) a v)"

text \<open>Modelled from the spec: \<open>V3i.SubScalar\<close>, declared outside src/.\<close>

definition V3i_SubScalar :: "V3i \<Rightarrow> int \<Rightarrow> V3i" where
  "V3i_SubScalar a b = (fst a - b, fst (snd a) - b, snd (snd a) - b)"

text \<open>Modelled from the spec: \<open>V3i.ToV3\<close>, declared outside src/.\<close>

definition V3i_ToV3 :: "V3i \<Rightarrow> V3" where
  "V3i_ToV3 a = V3 (of_int (fst a)) (of_int (fst (snd a))) (of_int (snd (snd a)))"

subsection \<open>Axis-aligned boxes\<close>

text \<open>Modelled from the spec: the types \<open>Box2\<close> and \<open>Box3\<close>, declared outside src/; an
  axis-aligned box is its min corner and its max corner, the fields \<open>Min\<close> and \<open>Max\<close> that
  src/ reads. The constructors are the positional composite literals \<open>Box2{min, max}\<close> and
  \<open>Box3{min, max}\<close> of src/.\<close>

datatype Box2 = Box2 (Min: V2) (Max: V2)

datatype Box3 = Box3 (Min: V3) (Max: V3)

text \<open>Modelled from the spec: \<open>Box2.Center\<close>, declared outside src/.\<close>

definition Box2_Center :: "Box2 \<Rightarrow> V2" where
  "Box2_Center a = V2_Add (Box2.Min a) (V2_MulScalar (V2_Sub (Box2.Max a) (Box2.Min a)) (1 / 2))"

text \<open>Modelled from the spec: \<open>Box2.Size\<close>, declared outside src/.\<close>

definition Box2_Size :: "Box2 \<Rightarrow> V2" where
  "Box2_Size a = V2_Sub (Box2.Max a) (Box2.Min a)"

text \<open>Modelled from the spec: \<open>NewBox2\<close>, declared outside src/; the box with the given
  center and size.\<close>

definition NewBox2 :: "V2 \<Rightarrow> V2 \<Rightarrow> Box2" where
  "NewBox2 center sz =
     (let half = V2_MulScalar sz (1 / 2) in Box2 (V2_Sub center half) (V2_Add center half))"

text \<open>Modelled from the spec: \<open>Box2.Translate\<close>, declared outside src/.\<close>

definition Box2_Translate :: "Box2 \<Rightarrow> V2 \<Rightarrow> Box2" where
  "Box2_Translate a v = Box2 (V2_Add (Box2.Min a) v) (V2_Add (Box2.Max a) v)"

text \<open>Modelled from the spec: \<open>Box2.Extend\<close>, declared outside src/; the union of extents,
  min of mins and max of maxes.\<close>

definition Box2_Extend :: "Box2 \<Rightarrow> Box2 \<Rightarrow> Box2" where
  "Box2_Extend a b = Box2 (V2_Min (Box2.Min a) (Box2.Min b)) (V2_Max (Box2.Max a) (Box2.Max b))"

text \<open>Modelled from the spec: \<open>Box2.Vertices\<close>, declared outside src/; the four corners.\<close>

definition Box2_Vertices :: "Box2 \<Rightarrow> V2Set" where
  "Box2_Vertices a =
     [Box2.Min a,
      V2 (V2.X (Box2.Max a)) (V2.Y (Box2.Min a)),
      V2 (V2.X (Box2.Min a)) (V2.Y (Box2.Max a)),
      Box2.Max a]"

text \<open>The spec's "point lies within the box": each coordinate between the corners.\<close>

definition Box2_Contains :: "Box2 \<Rightarrow> V2 \<Rightarrow> bool" where
  "Box2_Contains a p =
     (V2.X (Box2.Min a) \<le> V2.X p \<and> V2.X p \<le> V2.X (Box2.Max a) \<and>
      V2.Y (Box2.Min a) \<le> V2.Y p \<and> V2.Y p \<le> V2.Y (Box2.Max a))"

text \<open>Modelled from the spec: \<open>Box3.Translate\<close>, declared outside src/.\<close>

definition Box3_Translate :: "Box3 \<Rightarrow> V3 \<Rightarrow> Box3" where
  "Box3_Translate a v = Box3 (V3_Add (Box3.Min a) v) (V3_Add (Box3.Max a) v)"

text \<open>Modelled from the spec: \<open>Box3.Extend\<close>, declared outside src/; the union of extents.\<close>

definition Box3_Extend :: "Box3 \<Rightarrow> Box3 \<Rightarrow> Box3" where
  "Box3_Extend a b = Box3 (V3_Min (Box3.Min a) (Box3.Min b)) (V3_Max (Box3.Max a) (Box3.Max b))"

text \<open>Modelled from the spec: \<open>Box3.Vertices\<close>, declared outside src/; the eight corners.\<close>

definition Box3_Vertices :: "Box3 \<Rightarrow> V3Set" where
  "Box3_Vertices a =
     (let l = Box3.Min a; h = Box3.Max a in
      [V3 (V3.X l) (V3.Y l) (V3.Z l), V3 (V3.X h) (V3.Y l) (V3.Z l),
       V3 (V3.X l) (V3.Y h) (V3.Z l), V3 (V3.X h) (V3.Y h) (V3.Z l),
       V3 (V3.X l) (V3.Y l) (V3.Z h), V3 (V3.X h) (V3.Y l) (V3.Z h),
       V3 (V3.X l) (V3.Y h) (V3.Z h), V3 (V3.X h) (V3.Y h) (V3.Z h)])"

text \<open>The spec's "point lies within the box" in 3D.\<close>

definition Box3_Contains :: "Box3 \<Rightarrow> V3 \<Rightarrow> bool" where
  "Box3_Contains a p =
     (V3.X (Box3.Min a) \<le> V3.X p \<and> V3.X p \<le> V3.X (Box3.Max a) \<and>
      V3.Y (Box3.Min a) \<le> V3.Y p \<and> V3.Y p \<le> V3.Y (Box3.Max a) \<and>
      V3.Z (Box3.Min a) \<le> V3.Z p \<and> V3.Z p \<le> V3.Z (Box3.Max a))"

subsection \<open>Transform matrices\<close>

text \<open>Modelled from the spec: \<open>M33\<close>, declared outside src/; the homogeneous 3x3 matrix of
  a 2D affine transform, rows first.\<close>

datatype M33 = M33 (x00: float64) (x01: float64) (x02: float64)
                   (x10: float64) (x11: float64) (x12: float64)
                   (x20: float64) (x21: float64) (x22: float64)

text \<open>Modelled from the spec: \<open>M44\<close>, declared outside src/; the homogeneous 4x4 matrix of
  a 3D affine transform, rows first.\<close>

datatype M44 = M44 (x00: float64) (x01: float64) (x02: float64) (x03: float64)
                   (x10: float64) (x11: float64) (x12: float64) (x13: float64)
                   (x20: float64) (x21: float64) (x22: float64) (x23: float64)
                   (x30: float64) (x31: float64) (x32: float64) (x33: float64)

text \<open>Modelled from the spec: \<open>Identity2d\<close>, declared outside src/.\<close>

definition Identity2d :: M33 where
  "Identity2d = M33 1 0 0  0 1 0  0 0 1"

text \<open>Modelled from the spec: \<open>M33.MulPosition\<close>, declared outside src/; apply to a point,
  with translation.\<close>

definition M33_MulPosition :: "M33 \<Rightarrow> V2 \<Rightarrow> V2" where
  "M33_MulPosition a b =
     V2 (M33.x00 a * V2.X b + M33.x01 a * V2.Y b + M33.x02 a)
        (M33.x10 a * V2.X b + M33.x11 a * V2.Y b + M33.x12 a)"

text \<open>Modelled from the spec: \<open>M33.Mul\<close>, declared outside src/; composition, the matrix
  product.\<close>

definition M33_Mul :: "M33 \<Rightarrow> M33 \<Rightarrow> M33" where
  "M33_Mul a b =
     M33 (M33.x00 a * M33.x00 b + M33.x01 a * M33.x10 b + M33.x02 a * M33.x20 b)
         (M33.x00 a * M33.x01 b + M33.x01 a * M33.x11 b + M33.x02 a * M33.x21 b)
         (M33.x00 a * M33.x02 b + M33.x01 a * M33.x12 b + M33.x02 a * M33.x22 b)
         (M33.x10 a * M33.x00 b + M33.x11 a * M33.x10 b + M33.x12 a * M33.x20 b)
         (M33.x10 a * M33.x01 b + M33.x11 a * M33.x11 b + M33.x12 a * M33.x21 b)
         (M33.x10 a * M33.x02 b + M33.x11 a * M33.x12 b + M33.x12 a * M33.x22 b)
         (M33.x20 a * M33.x00 b + M33.x21 a * M33.x10 b + M33.x22 a * M33.x20 b)
         (M33.x20 a * M33.x01 b + M33.x21 a * M33.x11 b + M33.x22 a * M33.x21 b)
         (M33.x20 a * M33.x02 b + M33.x21 a * M33.x12 b + M33.x22 a * M33.x22 b)"

text \<open>Modelled from the spec: \<open>M33.Determinant\<close>, declared outside src/.\<close>

definition M33_Determinant :: "M33 \<Rightarrow> float64" where
  "M33_Determinant a =
     M33.x00 a * (M33.x11 a * M33.x22 a - M33.x21 a * M33.x12 a)
     - M33.x01 a * (M33.x10 a * M33.x22 a - M33.x20 a * M33.x12 a)
     + M33.x02 a * (M33.x10 a * M33.x21 a - M33.x20 a * M33.x11 a)"

text \<open>Modelled from the spec: \<open>M33.Inverse\<close>, declared outside src/; the adjugate divided
  by the determinant.\<close>

definition M33_Inverse :: "M33 \<Rightarrow> M33" where
  "M33_Inverse a =
     (let d = M33_Determinant a in
      M33 ((M33.x11 a * M33.x22 a - M33.x12 a * M33.x21 a) / d)
          ((M33.x02 a * M33.x21 a - M33.x01 a * M33.x22 a) / d)
          ((M33.x01 a * M33.x12 a - M33.x02 a * M33.x11 a) / d)
          ((M33.x12 a * M33.x20 a - M33.x10 a * M33.x22 a) / d)
          ((M33.x00 a * M33.x22 a - M33.x02 a * M33.x20 a) / d)
          ((M33.x02 a * M33.x10 a - M33.x00 a * M33.x12 a) / d)
          ((M33.x10 a * M33.x21 a - M33.x11 a * M33.x20 a) / d)
          ((M33.x01 a * M33.x20 a - M33.x00 a * M33.x21 a) / d)
          ((M33.x00 a * M33.x11 a - M33.x01 a * M33.x10 a) / d))"

text \<open>Modelled from the spec: \<open>V2Set.MulVertices\<close>, declared outside src/; every vertex of
  the set is replaced by its image under the matrix.\<close>

definition V2Set_MulVertices :: "V2Set \<Rightarrow> M33 \<Rightarrow> V2Set" where
  "V2Set_MulVertices v a = map (M33_MulPosition a) v"



text \<open>Modelled from the spec: \<open>Identity3d\<close>, declared outside src/.\<close>

definition Identity3d :: M44 where
  "Identity3d = M44 1 0 0 0  0 1 0 0  0 0 1 0  0 0 0 1"

text \<open>Modelled from the spec: \<open>M44.MulPosition\<close>, declared outside src/; apply to a point,
  with translation.\<close>

definition M44_MulPosition :: "M44 \<Rightarrow> V3 \<Rightarrow> V3" where
  "M44_MulPosition a b =
     V3 (M44.x00 a * V3.X b + M44.x01 a * V3.Y b + M44.x02 a * V3.Z b + M44.x03 a)
        (M44.x10 a * V3.X b + M44.x11 a * V3.Y b + M44.x12 a * V3.Z b + M44.x13 a)
        (M44.x20 a * V3.X b + M44.x21 a * V3.Y b + M44.x22 a * V3.Z b + M44.x23 a)"

text \<open>Modelled from the spec: \<open>M44.Mul\<close>, declared outside src/; composition, the matrix
  product.\<close>

definition M44_Mul :: "M44 \<Rightarrow> M44 \<Rightarrow> M44" where
  "M44_Mul a b =
     M44 (M44.x00 a * M44.x00 b + M44.x01 a * M44.x10 b + M44.x02 a * M44.x20 b + M44.x03 a * M44.x30 b)
         (M44.x00 a * M44.x01 b + M44.x01 a * M44.x11 b + M44.x02 a * M44.x21 b + M44.x03 a * M44.x31 b)
         (M44.x00 a * M44.x02 b + M44.x01 a * M44.x12 b + M44.x02 a * M44.x22 b + M44.x03 a * M44.x32 b)
         (M44.x00 a * M44.x03 b + M44.x01 a * M44.x13 b + M44.x02 a * M44.x23 b + M44.x03 a * M44.x33 b)
         (M44.x10 a * M44.x00 b + M44.x11 a * M44.x10 b + M44.x12 a * M44.x20 b + M44.x13 a * M44.x30 b)
         (M44.x10 a * M44.x01 b + M44.x11 a * M44.x11 b + M44.x12 a * M44.x21 b + M44.x13 a * M44.x31 b)
         (M44.x10 a * M44.x02 b + M44.x11 a * M44.x12 b + M44.x12 a * M44.x22 b + M44.x13 a * M44.x32 b)
         (M44.x10 a * M44.x03 b + M44.x11 a * M44.x13 b + M44.x12 a * M44.x23 b + M44.x13 a * M44.x33 b)
         (M44.x20 a * M44.x00 b + M44.x21 a * M44.x10 b + M44.x22 a * M44.x20 b + M44.x23 a * M44.x30 b)
         (M44.x20 a * M44.x01 b + M44.x21 a * M44.x11 b + M44.x22 a * M44.x21 b + M44.x23 a * M44.x31 b)
         (M44.x20 a * M44.x02 b + M44.x21 a * M44.x12 b + M44.x22 a * M44.x22 b + M44.x23 a * M44.x32 b)
         (M44.x20 a * M44.x03 b + M44.x21 a * M44.x13 b + M44.x22 a * M44.x23 b + M44.x23 a * M44.x33 b)
         (M44.x30 a * M44.x00 b + M44.x31 a * M44.x10 b + M44.x32 a * M44.x20 b + M44.x33 a * M44.x30 b)
         (M44.x30 a * M44.x01 b + M44.x31 a * M44.x11 b + M44.x32 a * M44.x21 b + M44.x33 a * M44.x31 b)
         (M44.x30 a * M44.x02 b + M44.x31 a * M44.x12 b + M44.x32 a * M44.x22 b + M44.x33 a * M44.x32 b)
         (M44.x30 a * M44.x03 b + M44.x31 a * M44.x13 b + M44.x32 a * M44.x23 b + M44.x33 a * M44.x33 b)"

text \<open>Modelled from the spec: \<open>M44.Determinant\<close>, declared outside src/; by the products of
  the 2x2 minors of the upper and of the lower two rows.\<close>

definition M44_Determinant :: "M44 \<Rightarrow> float64" where
  "M44_Determinant a =
     (let s0 = M44.x00 a * M44.x11 a - M44.x10 a * M44.x01 a;
          s1 = M44.x00 a * M44.x12 a - M44.x10 a * M44.x02 a;
          s2 = M44.x00 a * M44.x13 a - M44.x10 a * M44.x03 a;
          s3 = M44.x01 a * M44.x12 a - M44.x11 a * M44.x02 a;
          s4 = M44.x01 a * M44.x13 a - M44.x11 a * M44.x03 a;
          s5 = M44.x02 a * M44.x13 a - M44.x12 a * M44.x03 a;
          c5 = M44.x22 a * M44.x33 a - M44.x32 a * M44.x23 a;
          c4 = M44.x21 a * M44.x33 a - M44.x31 a * M44.x23 a;
          c3 = M44.x21 a * M44.x32 a - M44.x31 a * M44.x22 a;
          c2 = M44.x20 a * M44.x33 a - M44.x30 a * M44.x23 a;
          c1 = M44.x20 a * M44.x32 a - M44.x30 a * M44.x22 a;
          c0 = M44.x20 a * M44.x31 a - M44.x30 a * M44.x21 a
      in s0 * c5 - s1 * c4 + s2 * c3 + s3 * c2 - s4 * c1 + s5 * c0)"

text \<open>Modelled from the spec: \<open>M44.Inverse\<close>, declared outside src/; the adjugate divided
  by the determinant.\<close>

definition M44_Inverse :: "M44 \<Rightarrow> M44" where
  "M44_Inverse a =
     (let s0 = M44.x00 a * M44.x11 a - M44.x10 a * M44.x01 a;
          s1 = M44.x00 a * M44.x12 a - M44.x10 a * M44.x02 a;
          s2 = M44.x00 a * M44.x13 a - M44.x10 a * M44.x03 a;
          s3 = M44.x01 a * M44.x12 a - M44.x11 a * M44.x02 a;
          s4 = M44.x01 a * M44.x13 a - M44.x11 a * M44.x03 a;
          s5 = M44.x02 a * M44.x13 a - M44.x12 a * M44.x03 a;
          c5 = M44.x22 a * M44.x33 a - M44.x32 a * M44.x23 a;
          c4 = M44.x21 a * M44.x33 a - M44.x31 a * M44.x23 a;
          c3 = M44.x21 a * M44.x32 a - M44.x31 a * M44.x22 a;
          c2 = M44.x20 a * M44.x33 a - M44.x30 a * M44.x23 a;
          c1 = M44.x20 a * M44.x32 a - M44.x30 a * M44.x22 a;
          c0 = M44.x20 a * M44.x31 a - M44.x30 a * M44.x21 a;
          d = s0 * c5 - s1 * c4 + s2 * c3 + s3 * c2 - s4 * c1 + s5 * c0
      in
      M44 ((M44.x11 a * c5 - M44.x12 a * c4 + M44.x13 a * c3) / d)
          ((- M44.x01 a * c5 + M44.x02 a * c4 - M44.x03 a * c3) / d)
          ((M44.x31 a * s5 - M44.x32 a * s4 + M44.x33 a * s3) / d)
          ((- M44.x21 a * s5 + M44.x22 a * s4 - M44.x23 a * s3) / d)
          ((- M44.x10 a * c5 + M44.x12 a * c2 - M44.x13 a * c1) / d)
          ((M44.x00 a * c5 - M44.x02 a * c2 + M44.x03 a * c1) / d)
          ((- M44.x30 a * s5 + M44.x32 a * s2 - M44.x33 a * s1) / d)
          ((M44.x20 a * s5 - M44.x22 a * s2 + M44.x23 a * s1) / d)
          ((M44.x10 a * c4 - M44.x11 a * c2 + M44.x13 a * c0) / d)
          ((- M44.x00 a * c4 + M44.x01 a * c2 - M44.x03 a * c0) / d)
          ((M44.x30 a * s4 - M44.x31 a * s2 + M44.x33 a * s0) / d)
          ((- M44.x20 a * s4 + M44.x21 a * s2 - M44.x23 a * s0) / d)
          ((- M44.x10 a * c3 + M44.x11 a * c1 - M44.x12 a * c0) / d)
          ((M44.x00 a * c3 - M44.x01 a * c1 + M44.x02 a * c0) / d)
          ((- M44.x30 a * s3 + M44.x31 a * s1 - M44.x32 a * s0) / d)
          ((M44.x20 a * s3 - M44.x21 a * s1 + M44.x22 a * s0) / d))"

text \<open>Modelled from the spec: \<open>V3Set.MulVertices\<close>, declared outside src/; every vertex of
  the set is replaced by its image under the matrix.\<close>

definition V3Set_MulVertices :: "V3Set \<Rightarrow> M44 \<Rightarrow> V3Set" where
  "V3Set_MulVertices v a = map (M44_MulPosition a) v"



subsection \<open>The nodes\<close>

text \<open>
  The interfaces \<open>SDF2\<close> and \<open>SDF3\<close> are implemented by the struct types of the package;
  a node is a value of one of them, and a method call on the interface dispatches on the
  struct type. The two families are mutually recursive: a slice holds a 3D node, a solid of
  revolution and an extrusion hold a 2D node. The fields of each struct are given in the
  order of its declaration.
\<close>

datatype SDF2 =
    CircleSDF2 float64 Box2
      \<comment> \<open>radius, bb\<close>
  | MultiCircleSDF2 float64 V2Set Box2
      \<comment> \<open>radius, positions, bb\<close>
  | BoxSDF2 V2 float64 Box2
      \<comment> \<open>size, round, bb\<close>
  | LineSDF2 float64 float64 Box2
      \<comment> \<open>l, round, bb\<close>
  | OffsetSDF2 SDF2 float64 Box2
      \<comment> \<open>sdf, offset, bb\<close>
  | CutSDF2 SDF2 V2 V2 Box2
      \<comment> \<open>sdf, a, n, bb\<close>
  | PolySDF2 "V2 list" "V2 list" "float64 list" Box2
      \<comment> \<open>vertex, vector, length, bb\<close>
  | TransformSDF2 SDF2 M33 M33 Box2
      \<comment> \<open>sdf, matrix, inverse, bb\<close>
  | ArraySDF2 SDF2 V2i V2 MinFunc float64 Box2
      \<comment> \<open>sdf, num, step, min, k, bb\<close>
  | RotateSDF2 SDF2 int M33 MinFunc float64 Box2
      \<comment> \<open>sdf, num, step, min, k, bb\<close>
  | RotateCopySDF2 SDF2 float64 Box2
      \<comment> \<open>sdf, theta, bb\<close>
  | SliceSDF2 SDF3 V3 V3 V3 Box2
      \<comment> \<open>sdf, a, u, v, bb\<close>
  | UnionSDF2 SDF2 SDF2 MinFunc float64 Box2
      \<comment> \<open>s0, s1, min, k, bb\<close>
  | DifferenceSDF2 SDF2 SDF2 MaxFunc float64 Box2
      \<comment> \<open>s0, s1, max, k, bb\<close>
and SDF3 =
    SorSDF3 SDF2 float64 V2 Box3
      \<comment> \<open>sdf, theta, norm, bb\<close>
  | ExtrudeSDF3 SDF2 float64 Box3
      \<comment> \<open>sdf, height, bb\<close>
  | BoxSDF3 V3 float64 Box3
      \<comment> \<open>size, round, bb\<close>
  | SphereSDF3 float64 Box3
      \<comment> \<open>radius, bb\<close>
  | CylinderSDF3 float64 float64 float64 Box3
      \<comment> \<open>height, radius, round, bb\<close>
  | MultiCylinderSDF3 float64 float64 V2Set Box3
      \<comment> \<open>height, radius, positions, bb\<close>
  | TransformSDF3 SDF3 M44 M44 Box3
      \<comment> \<open>sdf, matrix, inverse, bb\<close>
  | UnionSDF3 SDF3 SDF3 MinFunc float64 Box3
      \<comment> \<open>s0, s1, min, k, bb\<close>
  | DifferenceSDF3 SDF3 SDF3 MaxFunc float64 Box3
      \<comment> \<open>s0, s1, max, k, bb\<close>
  | ArraySDF3 SDF3 V3i V3 MinFunc float64 Box3
      \<comment> \<open>sdf, num, step, min, k, bb\<close>
  | RotateSDF3 SDF3 int M44 MinFunc float64 Box3
      \<comment> \<open>sdf, num, step, min, k, bb\<close>

subsection \<open>Evaluation\<close>

text \<open>\<open>sdf_box2d\<close>: the distance from \<open>p\<close> to the box of half-size \<open>s\<close>.\<close>

definition sdf_box2d :: "V2 \<Rightarrow> V2 \<Rightarrow> float64" where
  "sdf_box2d p0 s =
     (let p = V2_Abs p0;
          d = V2_Sub p s;
          k = V2.Y s - V2.X s
      in if V2.X d > 0 \<and> V2.Y d > 0 then V2_Length d
         else if V2.Y p - V2.X p > k then V2.Y d
         else V2.X d)"

text \<open>\<open>sdf_box3d\<close>.\<close>

definition sdf_box3d :: "V3 \<Rightarrow> V3 \<Rightarrow> float64" where
  "sdf_box3d p s =
     (let d = V3_Sub (V3_Abs p) s
      in V3_Length (V3_Max d (V3 0 0 0)) + Min_f64 (V3_MaxComponent d) 0)"

text \<open>The body of the loop of \<open>PolySDF2.Evaluate\<close> for segment \<open>i\<close>, on the loop state
  \<open>(dd, wn, pb)\<close>.\<close>

definition PolySDF2_segment ::
  "V2 list \<Rightarrow> V2 list \<Rightarrow> float64 list \<Rightarrow> V2 \<Rightarrow> nat \<Rightarrow> float64 \<times> int \<times> V2 \<Rightarrow> float64 \<times> int \<times> V2"
where
  "PolySDF2_segment vertex vector lens p i st =
     (case st of (dd, wn, pb0) \<Rightarrow>
        let a = vertex ! i;
            b = vertex ! (i + 1);
            pa = pb0;
            pb = V2_Sub p b;
            t = V2_Dot pa (vector ! i);
            dn = V2_Dot pa (V2 (V2.Y (vector ! i)) (- V2.X (vector ! i)));
            dd1 = (if t < 0 then Min_f64 dd (V2_Length2 pa)
                   else if t > lens ! i then Min_f64 dd (V2_Length2 pb)
                   else Min_f64 dd (dn * dn));
            wn1 = (if V2.Y a \<le> V2.Y p
                   then (if V2.Y b > V2.Y p then (if dn < 0 then wn + 1 else wn) else wn)
                   else (if V2.Y b \<le> V2.Y p then (if dn > 0 then wn - 1 else wn) else wn))
        in (dd1, wn1, pb))"

text \<open>\<open>PolySDF2.Evaluate\<close>. On every node that \<open>NewPolySDF2\<close> builds the vertex list has
  at least three entries and the two segment lists have \<open>nsegs\<close> entries, so that each
  index of the loop is within range.\<close>

definition PolySDF2_Evaluate :: "V2 list \<Rightarrow> V2 list \<Rightarrow> float64 list \<Rightarrow> V2 \<Rightarrow> float64" where
  "PolySDF2_Evaluate vertex vector lens p =
     (let nsegs = length vertex - 1;
          pb = V2_Sub p (vertex ! 0);
          st = fold (PolySDF2_segment vertex vector lens p) [0..<nsegs] (MaxFloat64, 0, pb);
          d = sqrt (fst st)
      in if fst (snd st) \<noteq> 0 then - d else d)"

text \<open>The nested iteration of \<open>ArraySDF2.Evaluate\<close>, over the evaluation function of the child.\<close>

definition ArraySDF2_Evaluate ::
  "(V2 \<Rightarrow> float64) \<Rightarrow> V2i \<Rightarrow> V2 \<Rightarrow> MinFunc \<Rightarrow> float64 \<Rightarrow> V2 \<Rightarrow> float64" where
  "ArraySDF2_Evaluate sdf num step mn k p =
     fold (\<lambda>j d.
       fold (\<lambda>k1 d.
         let x = V2_Sub p (V2 (of_int j * V2.X step) (of_int k1 * V2.Y step))
         in mn d (sdf x) k)
       [0..snd num - 1] d)
     [0..fst num - 1] MaxFloat64"

text \<open>The loop of \<open>RotateSDF2.Evaluate\<close>, on the loop state \<open>(d, rot)\<close>.\<close>

definition RotateSDF2_Evaluate ::
  "(V2 \<Rightarrow> float64) \<Rightarrow> int \<Rightarrow> M33 \<Rightarrow> MinFunc \<Rightarrow> float64 \<Rightarrow> V2 \<Rightarrow> float64" where
  "RotateSDF2_Evaluate sdf num step mn k p =
     fst (fold (\<lambda>i (d, rot).
            let x = M33_MulPosition rot p
            in (mn d (sdf x) k, M33_Mul rot step))
          [0..num - 1] (MaxFloat64, Identity2d))"

text \<open>The nested iteration of \<open>ArraySDF3.Evaluate\<close>.\<close>

definition ArraySDF3_Evaluate ::
  "(V3 \<Rightarrow> float64) \<Rightarrow> V3i \<Rightarrow> V3 \<Rightarrow> MinFunc \<Rightarrow> float64 \<Rightarrow> V3 \<Rightarrow> float64" where
  "ArraySDF3_Evaluate sdf num step mn k p =
     fold (\<lambda>j d.
       fold (\<lambda>k1 d.
         fold (\<lambda>l d.
           let x = V3_Sub p (V3 (of_int j * V3.X step) (of_int k1 * V3.Y step)
                                (of_int l * V3.Z step))
           in mn d (sdf x) k)
         [0..snd (snd num) - 1] d)
       [0..fst (snd num) - 1] d)
     [0..fst num - 1] MaxFloat64"

text \<open>The loop of \<open>RotateSDF3.Evaluate\<close>, on the loop state \<open>(d, rot)\<close>.\<close>

definition RotateSDF3_Evaluate ::
  "(V3 \<Rightarrow> float64) \<Rightarrow> int \<Rightarrow> M44 \<Rightarrow> MinFunc \<Rightarrow> float64 \<Rightarrow> V3 \<Rightarrow> float64" where
  "RotateSDF3_Evaluate sdf num step mn k p =
     fst (fold (\<lambda>i (d, rot).
            let x = M44_MulPosition rot p
            in (mn d (sdf x) k, M44_Mul rot step))
          [0..num - 1] (MaxFloat64, Identity3d))"

text \<open>The method \<open>Evaluate\<close> of every struct type, dispatched on the node.\<close>

primrec Evaluate2 :: "SDF2 \<Rightarrow> V2 \<Rightarrow> float64"
    and Evaluate3 :: "SDF3 \<Rightarrow> V3 \<Rightarrow> float64" where
  "Evaluate2 (CircleSDF2 radius bb) p = V2_Length p - radius"
| "Evaluate2 (MultiCircleSDF2 radius positions bb) p =
     fold (\<lambda>posn d. Min_f64 d (V2_Length (V2_Sub p posn) - radius)) positions MaxFloat64"
| "Evaluate2 (BoxSDF2 sz rnd bb) p = sdf_box2d p sz - rnd"
| "Evaluate2 (LineSDF2 l rnd bb) p0 =
     (let p = V2_Abs p0
      in if V2.X p \<le> l then V2.Y p - rnd
         else V2_Length (V2_Sub p (V2 l 0)) - rnd)"
| "Evaluate2 (OffsetSDF2 sdf offset bb) p = Evaluate2 sdf p - offset"
| "Evaluate2 (CutSDF2 sdf a n bb) p = Max_f64 (V2_Dot (V2_Sub p a) n) (Evaluate2 sdf p)"
| "Evaluate2 (PolySDF2 vertex vector lens bb) p = PolySDF2_Evaluate vertex vector lens p"
| "Evaluate2 (TransformSDF2 sdf matrix inverse_m bb) p =
     (let q = M33_MulPosition inverse_m p in Evaluate2 sdf q)"
| "Evaluate2 (ArraySDF2 sdf num step mn k bb) p =
     ArraySDF2_Evaluate (Evaluate2 sdf) num step mn k p"
| "Evaluate2 (RotateSDF2 sdf num step mn k bb) p =
     RotateSDF2_Evaluate (Evaluate2 sdf) num step mn k p"
| "Evaluate2 (RotateCopySDF2 sdf theta bb) p =
     (let pnew = PolarToXY (V2_Length p) (SawTooth (Atan2 (V2.Y p) (V2.X p)) theta)
      in Evaluate2 sdf pnew)"
| "Evaluate2 (SliceSDF2 sdf3 a u v bb) p =
     (let pnew = V3_Add (V3_Add a (V3_MulScalar u (V2.X p))) (V3_MulScalar v (V2.Y p))
      in Evaluate3 sdf3 pnew)"
| "Evaluate2 (UnionSDF2 s0 s1 mn k bb) p =
     (let a = Evaluate2 s0 p;
          b = Evaluate2 s1 p
      in mn a b k)"
| "Evaluate2 (DifferenceSDF2 s0 s1 mx k bb) p = mx (Evaluate2 s0 p) (- Evaluate2 s1 p) k"
| "Evaluate3 (SorSDF3 sdf2 theta nrm bb) p =
     (let x = sqrt (V3.X p * V3.X p + V3.Y p * V3.Y p);
          a = Evaluate2 sdf2 (V2 x (V3.Z p));
          b = (if theta \<noteq> 0
               then (let d = V2_Dot nrm (V2 (V3.X p) (V3.Y p))
                     in if theta < PI then Max_f64 (- V3.Y p) d else Min_f64 (- V3.Y p) d)
               else a)
      in Max_f64 a b)"
| "Evaluate3 (ExtrudeSDF3 sdf2 height bb) p =
     (let a = Evaluate2 sdf2 (V2 (V3.X p) (V3.Y p));
          b = Max_f64 (- V3.Z p) (V3.Z p - height)
      in Max_f64 a b)"
| "Evaluate3 (BoxSDF3 sz rnd bb) p = sdf_box3d p sz - rnd"
| "Evaluate3 (SphereSDF3 radius bb) p = V3_Length p - radius"
| "Evaluate3 (CylinderSDF3 height radius rnd bb) p =
     (let d = sdf_box2d (V2 (V2_Length (V2 (V3.X p) (V3.Y p))) (V3.Z p)) (V2 radius height)
      in d - rnd)"
| "Evaluate3 (MultiCylinderSDF3 height radius positions bb) p =
     fold (\<lambda>posn d.
             let l = V2_Length (V2_Sub (V2 (V3.X p) (V3.Y p)) posn)
             in Min_f64 d (sdf_box2d (V2 l (V3.Z p)) (V2 radius height)))
          positions MaxFloat64"
| "Evaluate3 (TransformSDF3 sdf matrix inverse_m bb) p =
     Evaluate3 sdf (M44_MulPosition inverse_m p)"
| "Evaluate3 (UnionSDF3 s0 s1 mn k bb) p = mn (Evaluate3 s0 p) (Evaluate3 s1 p) k"
| "Evaluate3 (DifferenceSDF3 s0 s1 mx k bb) p = mx (Evaluate3 s0 p) (- Evaluate3 s1 p) k"
| "Evaluate3 (ArraySDF3 sdf num step mn k bb) p =
     ArraySDF3_Evaluate (Evaluate3 sdf) num step mn k p"
| "Evaluate3 (RotateSDF3 sdf num step mn k bb) p =
     RotateSDF3_Evaluate (Evaluate3 sdf) num step mn k p"

text \<open>The method \<open>BoundingBox\<close> of every struct type: the field \<open>bb\<close>.\<close>

fun BoundingBox2 :: "SDF2 \<Rightarrow> Box2" where
  "BoundingBox2 (CircleSDF2 radius bb) = bb"
| "BoundingBox2 (MultiCircleSDF2 radius positions bb) = bb"
| "BoundingBox2 (BoxSDF2 sz rnd bb) = bb"
| "BoundingBox2 (LineSDF2 l rnd bb) = bb"
| "BoundingBox2 (OffsetSDF2 sdf offset bb) = bb"
| "BoundingBox2 (CutSDF2 sdf a n bb) = bb"
| "BoundingBox2 (PolySDF2 vertex vector lens bb) = bb"
| "BoundingBox2 (TransformSDF2 sdf matrix inverse_m bb) = bb"
| "BoundingBox2 (ArraySDF2 sdf num step mn k bb) = bb"
| "BoundingBox2 (RotateSDF2 sdf num step mn k bb) = bb"
| "BoundingBox2 (RotateCopySDF2 sdf theta bb) = bb"
| "BoundingBox2 (SliceSDF2 sdf3 a u v bb) = bb"
| "BoundingBox2 (UnionSDF2 s0 s1 mn k bb) = bb"
| "BoundingBox2 (DifferenceSDF2 s0 s1 mx k bb) = bb"

fun BoundingBox3 :: "SDF3 \<Rightarrow> Box3" where
  "BoundingBox3 (SorSDF3 sdf2 theta nrm bb) = bb"
| "BoundingBox3 (ExtrudeSDF3 sdf2 height bb) = bb"
| "BoundingBox3 (BoxSDF3 sz rnd bb) = bb"
| "BoundingBox3 (SphereSDF3 radius bb) = bb"
| "BoundingBox3 (CylinderSDF3 height radius rnd bb) = bb"
| "BoundingBox3 (MultiCylinderSDF3 height radius positions bb) = bb"
| "BoundingBox3 (TransformSDF3 sdf matrix inverse_m bb) = bb"
| "BoundingBox3 (UnionSDF3 s0 s1 mn k bb) = bb"
| "BoundingBox3 (DifferenceSDF3 s0 s1 mx k bb) = bb"
| "BoundingBox3 (ArraySDF3 sdf num step mn k bb) = bb"
| "BoundingBox3 (RotateSDF3 sdf num step mn k bb) = bb"

subsection \<open>Constructors of 2D nodes\<close>

text \<open>
  A constructor with a \<open>return nil\<close> path returns an optional node, \<open>None\<close> for \<open>nil\<close>; the
  others return the node. \<open>NewUnionSDF2\<close> and \<open>NewDifferenceSDF2\<close> test their arguments
  against \<open>nil\<close> and take optional nodes. Every other constructor calls
  \<open>sdf.BoundingBox()\<close> on its child, which panics on the \<open>nil\<close> interface, and takes a
  node: its child is a shape. The blend parameter \<open>k\<close> of a new node has the zero value.
\<close>

definition Circle2D :: "float64 \<Rightarrow> SDF2" where
  "Circle2D radius = (let d = V2 radius radius in CircleSDF2 radius (Box2 (V2_Negate d) d))"

definition NewMultiCircleSDF2 :: "float64 \<Rightarrow> V2Set \<Rightarrow> SDF2" where
  "NewMultiCircleSDF2 radius positions =
     (let pmin = V2_Sub (V2Set_Min positions) (V2 radius radius);
          pmax = V2_Add (V2Set_Max positions) (V2 radius radius)
      in MultiCircleSDF2 radius positions (Box2 pmin pmax))"


definition NewLineSDF2 :: "float64 \<Rightarrow> float64 \<Rightarrow> SDF2" where
  "NewLineSDF2 l0 rnd =
     (let l = l0 / 2
      in LineSDF2 l rnd (Box2 (V2 (- l - rnd) (- rnd)) (V2 (l + rnd) rnd)))"

definition NewOffsetSDF2 :: "SDF2 \<Rightarrow> float64 \<Rightarrow> SDF2" where
  "NewOffsetSDF2 sdf offset =
     (let bb = BoundingBox2 sdf
      in OffsetSDF2 sdf offset (NewBox2 (Box2_Center bb) (V2_AddScalar (Box2_Size bb) (2 * offset))))"

definition NewCutSDF2 :: "SDF2 \<Rightarrow> V2 \<Rightarrow> V2 \<Rightarrow> SDF2" where
  "NewCutSDF2 sdf a v0 =
     (let v = V2_Normalize v0;
          n = V2 (- V2.Y v) (V2.X v)
      in CutSDF2 sdf a n (BoundingBox2 sdf))"

text \<open>\<open>NewPolySDF2\<close>: the loop over the segments fills \<open>vector\<close> and \<open>length\<close> at each
  index and folds the vertices into \<open>vmin\<close> and \<open>vmax\<close>.\<close>

definition NewPolySDF2 :: "V2 list \<Rightarrow> SDF2 option" where
  "NewPolySDF2 vertex =
     (let n = length vertex
      in if n < 3 then None
         else
           let s_vertex = (if \<not> V2_Equals (vertex ! 0) (vertex ! (n - 1)) 0
                           then vertex @ [vertex ! 0] else vertex);
               nsegs = length s_vertex - 1;
               seg = (\<lambda>i. V2_Sub (s_vertex ! (i + 1)) (s_vertex ! i));
               s_length = map (\<lambda>i. V2_Length (seg i)) [0..<nsegs];
               s_vector = map (\<lambda>i. V2_Normalize (seg i)) [0..<nsegs];
               vmin = fold (\<lambda>i vmin. V2_Min vmin (s_vertex ! i)) [0..<nsegs] (s_vertex ! 0);
               vmax = fold (\<lambda>i vmax. V2_Max vmax (s_vertex ! i)) [0..<nsegs] (s_vertex ! 0)
           in Some (PolySDF2 s_vertex s_vector s_length (Box2 vmin vmax)))"


definition NewArraySDF2 :: "SDF2 \<Rightarrow> V2i \<Rightarrow> V2 \<Rightarrow> SDF2 option" where
  "NewArraySDF2 sdf num step =
     (if fst num \<le> 0 \<or> snd num \<le> 0 then None
      else
        let bb0 = BoundingBox2 sdf;
            bb1 = Box2_Translate bb0 (V2_Mul step (V2i_ToV2 (V2i_SubScalar num 1)))
        in Some (ArraySDF2 sdf num step NormalMin 0 (Box2_Extend bb0 bb1)))"

text \<open>\<open>NewRotateSDF2\<close>: the loop state is \<open>(bb_min, bb_max, v)\<close>; \<open>v.MulVertices(step)\<close>
  updates the vertex set in place.\<close>

definition NewRotateSDF2 :: "SDF2 \<Rightarrow> int \<Rightarrow> M33 \<Rightarrow> SDF2 option" where
  "NewRotateSDF2 sdf num step =
     (if num \<le> 0 then None
      else
        let v = Box2_Vertices (BoundingBox2 sdf);
            st = fold (\<lambda>i (bb_min, bb_max, v).
                         (V2_Min bb_min (V2Set_Min v), V2_Max bb_max (V2Set_Max v),
                          V2Set_MulVertices v step))
                      [0..num - 1] (v ! 0, v ! 0, v)
        in Some (RotateSDF2 sdf num (M33_Inverse step) NormalMin 0
                   (Box2 (fst st) (fst (snd st)))))"

definition NewRotateCopySDF2 :: "SDF2 \<Rightarrow> int \<Rightarrow> SDF2 option" where
  "NewRotateCopySDF2 sdf num =
     (if num \<le> 0 then None
      else
        let theta = TAU / of_int num;
            r_max = V2_Length (Box2.Max (BoundingBox2 sdf))
        in Some (RotateCopySDF2 sdf theta (Box2 (V2 (- r_max) (- r_max)) (V2 r_max r_max))))"

definition Slice2D :: "SDF3 \<Rightarrow> V3 \<Rightarrow> V3 \<Rightarrow> SDF2" where
  "Slice2D sdf a n0 =
     (let u0 = (if V3.X n0 = 0 then V3 1 0 0
                else if V3.Y n0 = 0 then V3 0 1 0
                else if V3.Z n0 = 0 then V3 0 0 1
                else V3 (V3.Y n0) (- V3.X n0) 0);
          v0 = V3_Cross n0 u0;
          u = V3_Normalize u0;
          v = V3_Normalize v0;
          v3 = Box3_Vertices (BoundingBox3 sdf);
          n = V3_Normalize n0;
          v2 = map (\<lambda>vx.
                 let va = V3_Sub vx a;
                     pa = V3_Sub va (V3_MulScalar n (V3_Dot n va))
                 in V2 (V3_Dot pa u) (V3_Dot pa v)) v3
      in SliceSDF2 sdf a u v (Box2 (V2Set_Min v2) (V2Set_Max v2)))"

definition NewUnionSDF2 :: "SDF2 option \<Rightarrow> SDF2 option \<Rightarrow> SDF2 option" where
  "NewUnionSDF2 s0 s1 =
     (case s0 of None \<Rightarrow> s1
      | Some a \<Rightarrow>
          (case s1 of None \<Rightarrow> s0
           | Some b \<Rightarrow>
               Some (UnionSDF2 a b NormalMin 0 (Box2_Extend (BoundingBox2 a) (BoundingBox2 b)))))"

definition NewDifferenceSDF2 :: "SDF2 option \<Rightarrow> SDF2 option \<Rightarrow> SDF2 option" where
  "NewDifferenceSDF2 s0 s1 =
     (case s1 of None \<Rightarrow> s0
      | Some b \<Rightarrow>
          (case s0 of None \<Rightarrow> None
           | Some a \<Rightarrow> Some (DifferenceSDF2 a b NormalMax 0 (BoundingBox2 a))))"

text \<open>The square of the spec's polygon example.\<close>

definition unit_square :: "V2 list" where
  "unit_square = [V2.V2 0 0, V2.V2 1 0, V2.V2 1 1, V2.V2 0 1]"

subsection \<open>Constructors of 3D nodes\<close>

definition NewSorThetaSDF3 :: "SDF2 \<Rightarrow> float64 \<Rightarrow> SDF3" where
  "NewSorThetaSDF3 sdf theta0 =
     (let theta = Mod_f64 (Abs_f64 theta0) TAU;
          sn = sin theta;
          cs = cos theta;
          nrm = V2 (- sn) cs;
          vset = (if theta = 0 then [V2 1 1, V2 (- 1) (- 1)]
                  else [V2 0 0, V2 1 0, V2 cs sn]
                       @ (if theta > 0.5 * PI then [V2 0 1] else [])
                       @ (if theta > PI then [V2 (- 1) 0] else [])
                       @ (if theta > 1.5 * PI then [V2 0 (- 1)] else []));
          bb = BoundingBox2 sdf;
          l = Max_f64 (Abs_f64 (V2.X (Box2.Min bb))) (Abs_f64 (V2.X (Box2.Max bb)));
          vmin = V2_MulScalar (V2Set_Min vset) l;
          vmax = V2_MulScalar (V2Set_Max vset) l
      in SorSDF3 sdf theta nrm
           (Box3 (V3 (V2.X vmin) (V2.Y vmin) (V2.Y (Box2.Min bb)))
                 (V3 (V2.X vmax) (V2.Y vmax) (V2.Y (Box2.Max bb)))))"

definition NewSorSDF3 :: "SDF2 \<Rightarrow> SDF3" where
  "NewSorSDF3 sdf = NewSorThetaSDF3 sdf 0"

definition NewExtrudeSDF3 :: "SDF2 \<Rightarrow> float64 \<Rightarrow> SDF3" where
  "NewExtrudeSDF3 sdf height =
     (let bb = BoundingBox2 sdf
      in ExtrudeSDF3 sdf height
           (Box3 (V3 (V2.X (Box2.Min bb)) (V2.Y (Box2.Min bb)) 0)
                 (V3 (V2.X (Box2.Max bb)) (V2.Y (Box2.Max bb)) height)))"

definition NewBoxSDF3 :: "V3 \<Rightarrow> float64 \<Rightarrow> SDF3" where
  "NewBoxSDF3 sz0 rnd =
     (let sz = V3_MulScalar sz0 0.5
      in BoxSDF3 (V3_SubScalar sz rnd) rnd (Box3 (V3_Negate sz) sz))"

definition NewSphereSDF3 :: "float64 \<Rightarrow> SDF3" where
  "NewSphereSDF3 radius =
     (let d = V3 radius radius radius in SphereSDF3 radius (Box3 (V3_Negate d) d))"

definition NewCylinderSDF3 :: "float64 \<Rightarrow> float64 \<Rightarrow> float64 \<Rightarrow> SDF3" where
  "NewCylinderSDF3 height radius rnd =
     (let d = V3 radius radius (height / 2)
      in CylinderSDF3 ((height / 2) - rnd) (radius - rnd) rnd (Box3 (V3_Negate d) d))"

definition NewCapsuleSDF3 :: "float64 \<Rightarrow> float64 \<Rightarrow> SDF3" where
  "NewCapsuleSDF3 radius height = NewCylinderSDF3 radius height radius"

definition NewMultiCylinderSDF3 :: "float64 \<Rightarrow> float64 \<Rightarrow> V2Set \<Rightarrow> SDF3" where
  "NewMultiCylinderSDF3 height radius positions =
     (let pmin = V2_Sub (V2Set_Min positions) (V2 radius radius);
          pmax = V2_Add (V2Set_Max positions) (V2 radius radius)
      in MultiCylinderSDF3 (height / 2) radius positions
           (Box3 (V3 (V2.X pmin) (V2.Y pmin) (- height / 2))
                 (V3 (V2.X pmax) (V2.Y pmax) (height / 2))))"


definition NewUnionSDF3 :: "SDF3 \<Rightarrow> SDF3 \<Rightarrow> SDF3" where
  "NewUnionSDF3 s0 s1 =
     UnionSDF3 s0 s1 NormalMin 0 (Box3_Extend (BoundingBox3 s0) (BoundingBox3 s1))"

definition NewDifferenceSDF3 :: "SDF3 \<Rightarrow> SDF3 \<Rightarrow> SDF3" where
  "NewDifferenceSDF3 s0 s1 = DifferenceSDF3 s0 s1 NormalMax 0 (BoundingBox3 s0)"

definition NewArraySDF3 :: "SDF3 \<Rightarrow> V3i \<Rightarrow> V3 \<Rightarrow> SDF3 option" where
  "NewArraySDF3 sdf num step =
     (if fst num \<le> 0 \<or> fst (snd num) \<le> 0 \<or> snd (snd num) \<le> 0 then None
      else
        let bb0 = BoundingBox3 sdf;
            bb1 = Box3_Translate bb0 (V3_Mul step (V3i_ToV3 (V3i_SubScalar num 1)))
        in Some (ArraySDF3 sdf num step NormalMin 0 (Box3_Extend bb0 bb1)))"

definition NewRotateSDF3 :: "SDF3 \<Rightarrow> int \<Rightarrow> M44 \<Rightarrow> SDF3 option" where
  "NewRotateSDF3 sdf num step =
     (if num \<le> 0 then None
      else
        let v = Box3_Vertices (BoundingBox3 sdf);
            st = fold (\<lambda>i (bb_min, bb_max, v).
                         (V3_Min bb_min (V3Set_Min v), V3_Max bb_max (V3Set_Max v),
                          V3Set_MulVertices v step))
                      [0..num - 1] (v ! 0, v ! 0, v)
        in Some (RotateSDF3 sdf num (M44_Inverse step) NormalMin 0
                   (Box3 (fst st) (fst (snd st)))))"

subsection \<open>Writing a mesh as 3MF\<close>

text \<open>Modelled from the spec: \<open>Triangle3\<close>, declared outside src/; three 3D points, the
  array \<open>V\<close> that src/ ranges over and indexes. A mesh is the list of the triangles that its
  pointers refer to.\<close>

datatype Triangle3 = Triangle3 V3 V3 V3

text \<open>The array \<open>t.V\<close> in the order in which \<open>range\<close> visits it.\<close>

fun Triangle3_V :: "Triangle3 \<Rightarrow> V3 list" where
  "Triangle3_V (Triangle3 a b c) = [a, b, c]"

text \<open>
  The Go map \<open>map[V3]int\<close> is an association list with distinct keys: \<open>length\<close> is
  \<open>len\<close>, an assignment to a key replaces its value or adds an entry
  (\<^const>\<open>AList.update\<close>), and a read of a missing key gives the zero value.
\<close>

type_synonym vertex_map = "(V3 \<times> int) list"

definition map_index :: "vertex_map \<Rightarrow> V3 \<Rightarrow> int" where
  "map_index m v = (case map_of m v of None \<Rightarrow> 0 | Some i \<Rightarrow> i)"

text \<open>The assignment \<open>vertices[v] = len(vertices)\<close>: the right-hand side is evaluated
  before the map is changed.\<close>

definition assign_index :: "V3 \<Rightarrow> vertex_map \<Rightarrow> vertex_map" where
  "assign_index v vertices = AList.update v (int (length vertices)) vertices"

text \<open>The first loop of \<open>Save3MF\<close>: the assignment for every vertex of every triangle.\<close>

definition dedupe_vertices :: "Triangle3 list \<Rightarrow> vertex_map" where
  "dedupe_vertices mesh =
     fold (\<lambda>t vertices. fold assign_index (Triangle3_V t) vertices) mesh []"

text \<open>The second loop: \<open>outputVertices[i] = ThreeMFVertex{...}\<close> for the entries of the
  map in the order given. A write at an index outside the slice panics: \<open>None\<close>.\<close>

fun write_vertices :: "(V3 \<times> int) list \<Rightarrow> ThreeMFVertex list \<Rightarrow> ThreeMFVertex list option" where
  "write_vertices [] out = Some out"
| "write_vertices ((v, i) # rest) out =
     (if 0 \<le> i \<and> i < int (length out)
      then write_vertices rest
             (out[nat i := \<lparr>ThreeMFVertex.X = V3.X v, ThreeMFVertex.Y = V3.Y v,
                             ThreeMFVertex.Z = V3.Z v\<rparr>])
      else None)"

datatype save_error = OsError string | IndexOutOfRange

text \<open>
  \<open>Save3MF\<close>. The file system and the runtime are parameters: \<open>create_err\<close> is the error
  that \<open>os.Create(path)\<close> returns (\<open>None\<close> for \<open>nil\<close>), and \<open>range_order\<close> gives the order
  in which \<open>range\<close> visits the entries of a map, which Go leaves unspecified. The result
  is the error returned, the panic of an index out of range, or the model handed to the
  encoder.
\<close>

definition Save3MF ::
  "string option \<Rightarrow> (vertex_map \<Rightarrow> vertex_map) \<Rightarrow> string \<Rightarrow> Triangle3 list
     \<Rightarrow> save_error + ThreeMFModel" where
  "Save3MF create_err range_order path mesh =
     (case create_err of
        Some err \<Rightarrow> Inl (OsError err)
      | None \<Rightarrow>
          let vertices = dedupe_vertices mesh;
              zero = \<lparr>ThreeMFVertex.X = 0, ThreeMFVertex.Y = 0, ThreeMFVertex.Z = 0\<rparr>
          in case write_vertices (range_order vertices) (replicate (length vertices) zero) of
               None \<Rightarrow> Inl IndexOutOfRange
             | Some outputVertices \<Rightarrow>
                 let outputTriangles =
                       map (\<lambda>t. case t of Triangle3 a b c \<Rightarrow>
                              \<lparr>ThreeMFTriangle.V1 = map_index vertices a,
                               ThreeMFTriangle.V2 = map_index vertices b,
                               ThreeMFTriangle.V3 = map_index vertices c\<rparr>) mesh
                 in Inr \<lparr>Lang = ''en-US'',
                         Schema = ''http://schemas.microsoft.com/3dmanufacturing/core/2015/02'',
                         Unit = ''mm'',
                         Resources =
                           [\<lparr>ID = ''1'', Type = ''model'',
                             Mesh = \<lparr>Vertices = outputVertices, Triangles = outputTriangles\<rparr>\<rparr>],
                         Build = [\<lparr>ObjectID = ''1''\<rparr>]\<rparr>)"

text \<open>The vertex positions of a mesh in the order of the first loop.\<close>

definition mesh_vertices :: "Triangle3 list \<Rightarrow> V3 list" where
  "mesh_vertices mesh = concat (map Triangle3_V mesh)"

text \<open>Some entry of the map carries an index outside a slice of length \<open>n\<close>.\<close>

definition out_of_range :: "vertex_map \<Rightarrow> nat \<Rightarrow> bool" where
  "out_of_range es n = (\<exists>(v, i) \<in> set es. \<not> (0 \<le> i \<and> i < int n))"

subsection \<open>Soundness of a bounding box\<close>

text \<open>The box of a node is sound when it contains every point at which the node evaluates
  to a distance that is not positive.\<close>

definition BoxSound2 :: "SDF2 \<Rightarrow> bool" where
  "BoxSound2 s = (\<forall>p. Evaluate2 s p \<le> 0 \<longrightarrow> Box2_Contains (BoundingBox2 s) p)"

definition BoxSound3 :: "SDF3 \<Rightarrow> bool" where
  "BoxSound3 s = (\<forall>p. Evaluate3 s p \<le> 0 \<longrightarrow> Box3_Contains (BoundingBox3 s) p)"

text \<open>The distance from the origin to the farthest of the four corners of a box.\<close>

definition FarCornerLength :: "Box2 \<Rightarrow> float64" where
  "FarCornerLength bb = fold (\<lambda>v r. Max_f64 r (V2_Length v)) (Box2_Vertices bb) 0"


subsection \<open>Rounded arithmetic\<close>

text \<open>
  Where a property depends on the rounding of \<open>float64\<close>, the operations are read with the
  rounding of IEEE 754 binary64 that Go gives them: every sum, difference, product,
  quotient and square root is the exact result rounded to the nearest number with a
  significand of 53 bits, a tie going to the even significand. The model covers the normal
  range (no overflow to an infinity and no subnormal numbers); the values computed with it
  below lie between \<open>1/4\<close> and \<open>16\<close>.
\<close>

text \<open>The nearest integer, a tie going to the even one.\<close>

definition round_half_even :: "real \<Rightarrow> int" where
  "round_half_even x =
     (let n = \<lfloor>x\<rfloor>; r = x - of_int n
      in if r < 1 / 2 then n else if 1 / 2 < r then n + 1 else if even n then n else n + 1)"

text \<open>The nearest binary64 number: with \<open>2 ^ e \<le> \<bar>x\<bar> < 2 ^ (e + 1)\<close> the spacing of the
  numbers around \<open>x\<close> is \<open>2 ^ (e - 52)\<close>.\<close>

definition f64_round :: "real \<Rightarrow> float64" where
  "f64_round x =
     (if x = 0 then 0
      else let u = 2 powr (of_int \<lfloor>log 2 \<bar>x\<bar>\<rfloor> - 52)
           in of_int (round_half_even (x / u)) * u)"














section \<open>Properties\<close>

subsection \<open>Union and difference\<close>

text \<open>
  Claim C2. A freshly constructed union of two shapes evaluates to the minimum of the two
  distances at every point, and is pointwise commutative; this holds for \<open>UnionSDF2\<close> and
  for \<open>UnionSDF3\<close>. On two shapes \<open>NewUnionSDF2\<close> returns a node.
\<close>

theorem union_evaluate_min:
  "NewUnionSDF2 (Some a) (Some b) \<noteq> None \<and>
   Evaluate2 (the (NewUnionSDF2 (Some a) (Some b))) p = min (Evaluate2 a p) (Evaluate2 b p) \<and>
   Evaluate2 (the (NewUnionSDF2 (Some a) (Some b))) p
     = Evaluate2 (the (NewUnionSDF2 (Some b) (Some a))) p \<and>
   Evaluate3 (NewUnionSDF3 c d) q = min (Evaluate3 c q) (Evaluate3 d q) \<and>
   Evaluate3 (NewUnionSDF3 c d) q = Evaluate3 (NewUnionSDF3 d c) q"
  by (simp add: NewUnionSDF2_def NewUnionSDF3_def NormalMin_def Min_f64_def min.commute)

text \<open>
  Claim C3. A freshly constructed difference of two shapes evaluates to the maximum of the
  distance to the first and the negated distance to the second, for \<open>DifferenceSDF2\<close> and
  for \<open>DifferenceSDF3\<close>, and the difference is not commutative: there are shapes and a
  point where the two orders differ (two circles, or two spheres, of radius 1 and 2 at the
  origin).
\<close>

theorem difference_evaluate_max:
  "NewDifferenceSDF2 (Some a) (Some b) \<noteq> None \<and>
   Evaluate2 (the (NewDifferenceSDF2 (Some a) (Some b))) p
     = max (Evaluate2 a p) (- Evaluate2 b p) \<and>
   Evaluate3 (NewDifferenceSDF3 c d) q = max (Evaluate3 c q) (- Evaluate3 d q) \<and>
   (\<exists>a b p. Evaluate2 (the (NewDifferenceSDF2 (Some a) (Some b))) p
       \<noteq> Evaluate2 (the (NewDifferenceSDF2 (Some b) (Some a))) p) \<and>
   (\<exists>c d q. Evaluate3 (NewDifferenceSDF3 c d) q \<noteq> Evaluate3 (NewDifferenceSDF3 d c) q)"
proof -
  have gen2: "NewDifferenceSDF2 (Some a) (Some b) \<noteq> None \<and>
      Evaluate2 (the (NewDifferenceSDF2 (Some a) (Some b))) p
        = max (Evaluate2 a p) (- Evaluate2 b p)" for a b p
    by (simp add: NewDifferenceSDF2_def NormalMax_def Max_f64_def)
  have gen3: "Evaluate3 (NewDifferenceSDF3 c d) q = max (Evaluate3 c q) (- Evaluate3 d q)"
    for c d q
    by (simp add: NewDifferenceSDF3_def NormalMax_def Max_f64_def)
  have "Evaluate2 (the (NewDifferenceSDF2 (Some (Circle2D 1)) (Some (Circle2D 2)))) (V2.V2 0 0)
      \<noteq> Evaluate2 (the (NewDifferenceSDF2 (Some (Circle2D 2)) (Some (Circle2D 1)))) (V2.V2 0 0)"
    by (simp add: gen2 Circle2D_def V2_Length_def V2_Length2_def Let_def)
  then have ex2: "\<exists>a b p. Evaluate2 (the (NewDifferenceSDF2 (Some a) (Some b))) p
       \<noteq> Evaluate2 (the (NewDifferenceSDF2 (Some b) (Some a))) p"
    by blast
  have "Evaluate3 (NewDifferenceSDF3 (NewSphereSDF3 1) (NewSphereSDF3 2)) (V3.V3 0 0 0)
      \<noteq> Evaluate3 (NewDifferenceSDF3 (NewSphereSDF3 2) (NewSphereSDF3 1)) (V3.V3 0 0 0)"
    by (simp add: gen3 NewSphereSDF3_def V3_Length_def Let_def)
  then have ex3: "\<exists>c d q. Evaluate3 (NewDifferenceSDF3 c d) q \<noteq> Evaluate3 (NewDifferenceSDF3 d c) q"
    by blast
  from gen2 gen3 ex2 ex3 show ?thesis by blast
qed

subsection \<open>Revolution and extrusion\<close>

text \<open>
  Claim C5. \<open>SorSDF3.Evaluate\<close> at \<open>(x, y, z)\<close> evaluates the profile at
  \<open>(sqrt (x\<^sup>2 + y\<^sup>2), z)\<close>. With the normalised angle \<open>theta\<close> that the constructor stores,
  the result is that distance when \<open>theta = 0\<close>; otherwise it is the maximum of that
  distance and the wedge term, which is \<open>max (-y) d\<close> when \<open>theta < \<pi>\<close> and \<open>min (-y) d\<close>
  when \<open>theta \<ge> \<pi>\<close>, where \<open>d\<close> is the dot product of \<open>(x, y)\<close> with the stored normal
  \<open>(- sin theta, cos theta)\<close>. \<open>NewSorSDF3\<close> is the case \<open>theta = 0\<close>.
\<close>

theorem sor_evaluate:
  "Evaluate3 (NewSorThetaSDF3 s theta0) (V3.V3 x y z) =
     (let theta = Mod_f64 (Abs_f64 theta0) TAU;
          a = Evaluate2 s (V2.V2 (sqrt (x * x + y * y)) z);
          d = (- sin theta) * x + cos theta * y
      in if theta = 0 then a
         else max a (if theta < pi then max (- y) d else min (- y) d)) \<and>
   Evaluate3 (NewSorSDF3 s) (V3.V3 x y z) = Evaluate2 s (V2.V2 (sqrt (x * x + y * y)) z)"
proof -
  have th0: "Mod_f64 (Abs_f64 0) TAU = 0"
    by (simp add: Mod_f64_def Abs_f64_def)
  show ?thesis
    by (simp add: NewSorSDF3_def NewSorThetaSDF3_def Let_def Max_f64_def Min_f64_def V2_Dot_def
        PI_def th0)
qed

text \<open>
  Claim C6. An extrusion of the profile \<open>s\<close> to height \<open>h\<close> evaluates at \<open>(x, y, z)\<close> to
  \<open>max (s (x, y)) (max (-z) (z - h))\<close>. The circle of radius 1 extruded to height 2 gives
  \<open>-1\<close> at \<open>(0, 0, 1)\<close> and a positive distance at \<open>(0, 0, 3)\<close>.
\<close>

theorem extrude_evaluate:
  "Evaluate3 (NewExtrudeSDF3 s h) (V3.V3 x y z)
     = max (Evaluate2 s (V2.V2 x y)) (max (- z) (z - h)) \<and>
   Evaluate3 (NewExtrudeSDF3 (Circle2D 1) 2) (V3.V3 0 0 1) = - 1 \<and>
   Evaluate3 (NewExtrudeSDF3 (Circle2D 1) 2) (V3.V3 0 0 3) > 0"
  by (simp add: NewExtrudeSDF3_def Max_f64_def Circle2D_def V2_Length_def V2_Length2_def Let_def)

subsection \<open>Constructors\<close>

text \<open>
  Claim C7. \<open>NewPolySDF2\<close> returns \<open>nil\<close> exactly on the vertex lists with fewer than three
  vertices; \<open>NewArraySDF2\<close> and \<open>NewArraySDF3\<close> return \<open>nil\<close> exactly when a component of
  the count is not positive; \<open>NewRotateSDF2\<close>, \<open>NewRotateSDF3\<close> and \<open>NewRotateCopySDF2\<close>
  return \<open>nil\<close> exactly when \<open>num\<close> is not positive. In every other case the result is a
  node.
\<close>

theorem construction_failures:
  "(NewPolySDF2 vertex = None) = (length vertex < 3) \<and>
   (NewArraySDF2 s2 num2 step2 = None) = (fst num2 \<le> 0 \<or> snd num2 \<le> 0) \<and>
   (NewArraySDF3 s3 num3 step3 = None)
      = (fst num3 \<le> 0 \<or> fst (snd num3) \<le> 0 \<or> snd (snd num3) \<le> 0) \<and>
   (NewRotateSDF2 s2 n m2 = None) = (n \<le> 0) \<and>
   (NewRotateSDF3 s3 n m3 = None) = (n \<le> 0) \<and>
   (NewRotateCopySDF2 s2 n = None) = (n \<le> 0)"
  by (simp add: NewPolySDF2_def NewArraySDF2_def NewArraySDF3_def NewRotateSDF2_def
      NewRotateSDF3_def NewRotateCopySDF2_def Let_def)

text \<open>The node that \<open>NewPolySDF2\<close> builds has at least three vertices and one unit
  vector and one length for each segment, so that \<open>PolySDF2.Evaluate\<close> indexes within
  range.\<close>

lemma NewPolySDF2_lengths:
  assumes "NewPolySDF2 vertex = Some (PolySDF2 s_vertex s_vector s_length bb)"
  shows "3 \<le> length s_vertex \<and> length s_vector = length s_vertex - 1
         \<and> length s_length = length s_vertex - 1"
  using assms by (auto simp: NewPolySDF2_def Let_def split: if_splits)

text \<open>The spec's polygon example: the square with the vertices \<open>(0,0)\<close>, \<open>(1,0)\<close>, \<open>(1,1)\<close>,
  \<open>(0,1)\<close> is closed by the constructor, evaluates to \<open>-1/2\<close> at its centre and to
  \<open>sqrt 2\<close>, the distance to the vertex \<open>(1,1)\<close>, at \<open>(2,2)\<close>.\<close>

lemma upt4: "[0..<4] = [0, 1, 2, 3]"
  by (simp add: upt_rec)

lemma unit_square_node:
  "NewPolySDF2 unit_square =
     Some (PolySDF2 [V2.V2 0 0, V2.V2 1 0, V2.V2 1 1, V2.V2 0 1, V2.V2 0 0]
                    [V2.V2 1 0, V2.V2 0 1, V2.V2 (- 1) 0, V2.V2 0 (- 1)]
                    [1, 1, 1, 1]
                    (Box2 (V2.V2 0 0) (V2.V2 1 1)))"
  by (simp add: NewPolySDF2_def unit_square_def Let_def V2_Equals_def Abs_f64_def upt4
      V2_Sub_def V2_Length_def V2_Length2_def V2_Normalize_def V2_MulScalar_def
      V2_Min_def V2_Max_def Min_f64_def Max_f64_def)

lemma unit_square_inside:
  "Evaluate2 (the (NewPolySDF2 unit_square)) (V2.V2 (1 / 2) (1 / 2)) = - (1 / 2)"
proof -
  have m: "(1 / 4 :: real) \<le> MaxFloat64" by (simp add: MaxFloat64_def)
  have s: "sqrt (1 / 4 :: real) = 1 / 2"
    by (simp add: real_sqrt_divide)
  show ?thesis
    using m s
    by (simp add: unit_square_node PolySDF2_Evaluate_def PolySDF2_segment_def upt4 Let_def
        V2_Sub_def V2_Dot_def V2_Length2_def Min_f64_def)
qed


lemma unit_square_outside:
  "Evaluate2 (the (NewPolySDF2 unit_square)) (V2.V2 2 2) = sqrt 2"
proof -
  have m: "(2 :: real) \<le> MaxFloat64"
  proof -
    have "(2 :: real) \<le> 1 * 2 ^ 1023" by simp
    also have "\<dots> \<le> (2 - 1 / 2 ^ 52) * 2 ^ 1023"
      by (intro mult_right_mono) simp_all
    finally show ?thesis by (simp only: MaxFloat64_def)
  qed
  show ?thesis
    using m
    by (simp add: unit_square_node PolySDF2_Evaluate_def PolySDF2_segment_def upt4 Let_def
        V2_Sub_def V2_Dot_def V2_Length2_def Min_f64_def)
qed

text \<open>
  Claim C9. \<open>NewCapsuleSDF3(r, h)\<close> is \<open>NewCylinderSDF3(r, h, r)\<close>: the capsule's radius is
  passed as the cylinder's height and as its rounding, the capsule's height as the
  cylinder's radius. The bounding box of the node is therefore
  \<open>Box3{(-h, -h, -r/2), (h, h, r/2)}\<close> and it evaluates as the rounded cylinder of stored
  radius \<open>h - r\<close>, stored height \<open>r/2 - r\<close> and rounding \<open>r\<close>.
\<close>

theorem capsule_is_cylinder:
  "NewCapsuleSDF3 r h = NewCylinderSDF3 r h r \<and>
   NewCapsuleSDF3 r h
     = CylinderSDF3 (r / 2 - r) (h - r) r (Box3 (V3.V3 (- h) (- h) (- (r / 2))) (V3.V3 h h (r / 2))) \<and>
   BoundingBox3 (NewCapsuleSDF3 r h) = Box3 (V3.V3 (- h) (- h) (- (r / 2))) (V3.V3 h h (r / 2)) \<and>
   Evaluate3 (NewCapsuleSDF3 r h) p
     = sdf_box2d (V2.V2 (V2_Length (V2.V2 (V3.X p) (V3.Y p))) (V3.Z p)) (V2.V2 (h - r) (r / 2 - r)) - r"
  by (simp add: NewCapsuleSDF3_def NewCylinderSDF3_def V3_Negate_def Let_def)

subsection \<open>Arrays\<close>

text \<open>
  Claim C8. An array with every count equal to 1 is pointwise the base shape, for every step
  vector: at a point where the base distance is a finite \<open>float64\<close>, hence at most
  \<open>MaxFloat64\<close>, \<open>NewArraySDF2(S, (1,1), step)\<close> and \<open>NewArraySDF3(S, (1,1,1), step)\<close>
  return a node that evaluates to the base distance.
\<close>

theorem array_identity:
  "(Evaluate2 s p \<le> MaxFloat64 \<longrightarrow>
      NewArraySDF2 s (1, 1) step \<noteq> None \<and>
      Evaluate2 (the (NewArraySDF2 s (1, 1) step)) p = Evaluate2 s p) \<and>
   (Evaluate3 t q \<le> MaxFloat64 \<longrightarrow>
      NewArraySDF3 t (1, 1, 1) step3 \<noteq> None \<and>
      Evaluate3 (the (NewArraySDF3 t (1, 1, 1) step3)) q = Evaluate3 t q)"
proof -
  have p0: "V2_Sub p (V2.V2 0 0) = p" by (simp add: V2_Sub_def)
  have q0: "V3_Sub q (V3.V3 0 0 0) = q" by (simp add: V3_Sub_def)
  show ?thesis
    by (simp add: NewArraySDF2_def NewArraySDF3_def ArraySDF2_Evaluate_def ArraySDF3_Evaluate_def
        NormalMin_def Min_f64_def p0 q0 Let_def)
qed

text \<open>The circle and the sphere of radius 1 at the origin: the distance \<open>-1\<close> is finite and
  the arrays return it.\<close>

theorem array_identity_witness:
  "Evaluate2 (Circle2D 1) (V2.V2 0 0) \<le> MaxFloat64 \<and>
   NewArraySDF2 (Circle2D 1) (1, 1) (V2.V2 5 7) \<noteq> None \<and>
   Evaluate2 (the (NewArraySDF2 (Circle2D 1) (1, 1) (V2.V2 5 7))) (V2.V2 0 0) = - 1 \<and>
   Evaluate3 (NewSphereSDF3 1) (V3.V3 0 0 0) \<le> MaxFloat64 \<and>
   NewArraySDF3 (NewSphereSDF3 1) (1, 1, 1) (V3.V3 5 7 9) \<noteq> None \<and>
   Evaluate3 (the (NewArraySDF3 (NewSphereSDF3 1) (1, 1, 1) (V3.V3 5 7 9))) (V3.V3 0 0 0) = - 1"
proof -
  have c: "Evaluate2 (Circle2D 1) (V2.V2 0 0) = - 1"
    by (simp add: Circle2D_def V2_Length_def V2_Length2_def Let_def)
  have s: "Evaluate3 (NewSphereSDF3 1) (V3.V3 0 0 0) = - 1"
    by (simp add: NewSphereSDF3_def V3_Length_def Let_def)
  have m: "(- 1 :: real) \<le> MaxFloat64"
    by (simp add: MaxFloat64_def)
  from c s m
    array_identity [of "Circle2D 1" "V2.V2 0 0" "V2.V2 5 7" "NewSphereSDF3 1" "V3.V3 0 0 0" "V3.V3 5 7 9"]
  show ?thesis by simp
qed

subsection \<open>Transforms\<close>

text \<open>The modelled \<open>Inverse\<close> is the matrix inverse: its product with the matrix is the
  identity whenever the determinant is not zero.\<close>

lemma M33_Inverse_left:
  assumes "M33_Determinant m \<noteq> 0"
  shows "M33_Mul (M33_Inverse m) m = Identity2d"
proof (cases m)
  case (M33 a b c d e f g h i)
  define D where "D = a * (e * i - h * f) - b * (d * i - g * f) + c * (d * h - g * e)"
  have D: "D \<noteq> 0" using assms by (simp add: M33 M33_Determinant_def D_def)
  have inv: "M33_Inverse m = M33 ((e * i - f * h) / D) ((c * h - b * i) / D) ((b * f - c * e) / D)
                               ((f * g - d * i) / D) ((a * i - c * g) / D) ((c * d - a * f) / D)
                               ((d * h - e * g) / D) ((b * g - a * h) / D) ((a * e - b * d) / D)"
    by (simp add: M33 M33_Inverse_def M33_Determinant_def D_def Let_def)
  have f3: "n0 / D * p + n1 / D * q + n2 / D * r = s" if "n0 * p + n1 * q + n2 * r = s * D" for n0 n1 n2 p q r s
  proof -
    have "n0 / D * p + n1 / D * q + n2 / D * r = (n0 * p + n1 * q + n2 * r) / D"
      by (simp add: add_divide_distrib)
    with that D show ?thesis by simp
  qed
  show ?thesis
    unfolding inv unfolding M33 M33_Mul_def Identity2d_def M33.sel M33.inject
    by (intro conjI f3) (simp_all add: D_def algebra_simps)
qed

lemma M44_Inverse_left:
  assumes "M44_Determinant m \<noteq> 0"
  shows "M44_Mul (M44_Inverse m) m = Identity3d"
proof (cases m)
  case (M44 a00 a01 a02 a03 a10 a11 a12 a13 a20 a21 a22 a23 a30 a31 a32 a33)
  define s0 where "s0 = a00 * a11 - a10 * a01"
  define s1 where "s1 = a00 * a12 - a10 * a02"
  define s2 where "s2 = a00 * a13 - a10 * a03"
  define s3 where "s3 = a01 * a12 - a11 * a02"
  define s4 where "s4 = a01 * a13 - a11 * a03"
  define s5 where "s5 = a02 * a13 - a12 * a03"
  define c5 where "c5 = a22 * a33 - a32 * a23"
  define c4 where "c4 = a21 * a33 - a31 * a23"
  define c3 where "c3 = a21 * a32 - a31 * a22"
  define c2 where "c2 = a20 * a33 - a30 * a23"
  define c1 where "c1 = a20 * a32 - a30 * a22"
  define c0 where "c0 = a20 * a31 - a30 * a21"
  define D where "D = s0 * c5 - s1 * c4 + s2 * c3 + s3 * c2 - s4 * c1 + s5 * c0"
  have D: "D \<noteq> 0"
    using assms by (simp add: M44 M44_Determinant_def Let_def D_def s0_def s1_def s2_def s3_def s4_def s5_def c5_def c4_def c3_def c2_def c1_def c0_def)
  have inv: "M44_Inverse m = M44 ((a11 * c5 - a12 * c4 + a13 * c3) / D) ((- a01 * c5 + a02 * c4 - a03 * c3) / D) ((a31 * s5 - a32 * s4 + a33 * s3) / D) ((- a21 * s5 + a22 * s4 - a23 * s3) / D) ((- a10 * c5 + a12 * c2 - a13 * c1) / D) ((a00 * c5 - a02 * c2 + a03 * c1) / D) ((- a30 * s5 + a32 * s2 - a33 * s1) / D) ((a20 * s5 - a22 * s2 + a23 * s1) / D) ((a10 * c4 - a11 * c2 + a13 * c0) / D) ((- a00 * c4 + a01 * c2 - a03 * c0) / D) ((a30 * s4 - a31 * s2 + a33 * s0) / D) ((- a20 * s4 + a21 * s2 - a23 * s0) / D) ((- a10 * c3 + a11 * c1 - a12 * c0) / D) ((a00 * c3 - a01 * c1 + a02 * c0) / D) ((- a30 * s3 + a31 * s1 - a32 * s0) / D) ((a20 * s3 - a21 * s1 + a22 * s0) / D)"
    by (simp add: M44 M44_Inverse_def Let_def D_def s0_def s1_def s2_def s3_def s4_def s5_def c5_def c4_def c3_def c2_def c1_def c0_def)
  have f4: "n0 / D * p + n1 / D * q + n2 / D * r + n3 / D * t = s"
    if "n0 * p + n1 * q + n2 * r + n3 * t = s * D" for n0 n1 n2 n3 p q r s t
  proof -
    have "n0 / D * p + n1 / D * q + n2 / D * r + n3 / D * t = (n0 * p + n1 * q + n2 * r + n3 * t) / D"
      by (simp add: add_divide_distrib)
    with that D show ?thesis by simp
  qed
  show ?thesis
    unfolding inv unfolding M44 M44_Mul_def Identity3d_def M44.sel M44.inject
    by (intro conjI f4) (simp_all add: D_def s0_def s1_def s2_def s3_def s4_def s5_def c5_def c4_def c3_def c2_def c1_def c0_def algebra_simps)
qed











text \<open>The rounding at a number whose binary exponent is known.\<close>

lemma f64_round_exponent:
  assumes "2 powr of_int k \<le> \<bar>x\<bar>" and "\<bar>x\<bar> < 2 powr (of_int k + 1)"
  shows "f64_round x = of_int (round_half_even (x / 2 powr (of_int k - 52))) * 2 powr (of_int k - 52)"
proof -
  have "0 < (2 :: real) powr of_int k" by simp
  with assms(1) have pos: "0 < \<bar>x\<bar>" by linarith
  then have "\<lfloor>log 2 \<bar>x\<bar>\<rfloor> = k"
    using assms by (simp add: floor_log_eq_powr_iff)
  with pos show ?thesis
    by (simp add: f64_round_def Let_def)
qed

lemma two_powr_neg: "(2 :: real) powr (- real n) = 1 / 2 ^ n"
  by (simp add: powr_minus_divide powr_realpow)


lemma f64_round_down:
  assumes "1 / 2 ^ k \<le> \<bar>x\<bar>" and "\<bar>x\<bar> < 2 / 2 ^ k"
  shows "f64_round x = of_int (round_half_even (x * 2 ^ (52 + k))) / 2 ^ (52 + k)"
proof -
  have a: "2 powr of_int (- int k) \<le> \<bar>x\<bar>"
    using assms(1) by (simp add: powr_minus powr_realpow field_simps)
  have "(2 :: real) powr (of_int (- int k) + 1) = 2 powr 1 / 2 powr real k"
    by (simp add: powr_diff)
  then have "(2 :: real) powr (of_int (- int k) + 1) = 2 / 2 ^ k"
    by (simp add: powr_realpow)
  with assms(2) have b: "\<bar>x\<bar> < 2 powr (of_int (- int k) + 1)"
    by simp
  have u: "(2 :: real) powr (of_int (- int k) - 52) = 1 / 2 ^ (52 + k)"
  proof -
    have "of_int (- int k) - (52 :: real) = - real (52 + k)"
      by simp
    then have "(2 :: real) powr (of_int (- int k) - 52) = 2 powr (- real (52 + k))"
      by (simp only:)
    also have "\<dots> = 1 / 2 ^ (52 + k)"
      by (rule two_powr_neg)
    finally show ?thesis .
  qed
  show ?thesis
    unfolding f64_round_exponent [OF a b] u by simp
qed


lemma f64_round_downI:
  assumes "1 / 2 ^ k \<le> \<bar>x\<bar>" and "\<bar>x\<bar> < 2 / 2 ^ k"
    and "x * 2 ^ (52 + k) = y" and "round_half_even y = m" and "of_int m / 2 ^ (52 + k) = r"
  shows "f64_round x = r"
  using f64_round_down [OF assms(1,2)] assms(3,4,5) by simp















lemma f64_round_a: "f64_round (3152519739159347 / 4503599627370496) = 3152519739159347 / 4503599627370496"
  by (rule f64_round_downI [where k = 1 and y = "6305039478318694" and m = "6305039478318694"]) (simp_all add: round_half_even_def)








subsection \<open>Bounding boxes\<close>

lemma SawTooth_quarter: "SawTooth (- (pi / 2)) TAU = 3 / 2 * pi"
proof -
  have "- (pi / 2) / (2 * pi) = (- 1 / 4 :: real)" by simp
  then have "\<lfloor>- (pi / 2) / (2 * pi)\<rfloor> = - 1" by simp
  then show ?thesis by (simp add: SawTooth_def TAU_def)
qed

lemma sqrt_82_less_10: "sqrt 82 < 10"
  by (simp add: real_less_lsqrt)

lemma MaxFloat64_pos: "0 < MaxFloat64"
  by (simp add: MaxFloat64_def)

text \<open>Primitives and combinators whose box is sound, or sound when the boxes of the
  children are.\<close>

lemma sqrt_sum_squares_bound:
  assumes "sqrt (x * x + y * y) \<le> r"
  shows "\<bar>x\<bar> \<le> r \<and> \<bar>y\<bar> \<le> r"
proof -
  have "\<bar>x\<bar> \<le> sqrt (x\<^sup>2 + y\<^sup>2)" "\<bar>y\<bar> \<le> sqrt (x\<^sup>2 + y\<^sup>2)"
    by simp_all
  with assms show ?thesis by (simp add: power2_eq_square)
qed

lemma sqrt_sum3_squares_bound:
  assumes "sqrt (x * x + y * y + z * z) \<le> r"
  shows "\<bar>x\<bar> \<le> r \<and> \<bar>y\<bar> \<le> r \<and> \<bar>z\<bar> \<le> r"
proof -
  have "x * x \<le> x * x + y * y + z * z" "y * y \<le> x * x + y * y + z * z"
       "z * z \<le> x * x + y * y + z * z"
    by (simp_all add: add_nonneg_nonneg)
  then have "sqrt (x * x) \<le> sqrt (x * x + y * y + z * z)"
            "sqrt (y * y) \<le> sqrt (x * x + y * y + z * z)"
            "sqrt (z * z) \<le> sqrt (x * x + y * y + z * z)"
    by (simp_all only: real_sqrt_le_iff)
  with assms show ?thesis by simp
qed

lemma Circle2D_sound: "BoxSound2 (Circle2D radius)"
proof -
  have "Box2_Contains (BoundingBox2 (Circle2D radius)) p" if "Evaluate2 (Circle2D radius) p \<le> 0" for p
  proof -
    from that have "sqrt (V2.X p * V2.X p + V2.Y p * V2.Y p) \<le> radius"
      by (simp add: Circle2D_def Let_def V2_Length_def V2_Length2_def)
    from sqrt_sum_squares_bound [OF this] show ?thesis
      by (simp add: Circle2D_def Let_def Box2_Contains_def V2_Negate_def abs_le_iff)
  qed
  then show ?thesis by (simp add: BoxSound2_def)
qed

lemma NewSphereSDF3_sound: "BoxSound3 (NewSphereSDF3 radius)"
proof -
  have "Box3_Contains (BoundingBox3 (NewSphereSDF3 radius)) p"
    if "Evaluate3 (NewSphereSDF3 radius) p \<le> 0" for p
  proof -
    from that have "sqrt (V3.X p * V3.X p + V3.Y p * V3.Y p + V3.Z p * V3.Z p) \<le> radius"
      by (simp add: NewSphereSDF3_def Let_def V3_Length_def)
    from sqrt_sum3_squares_bound [OF this] show ?thesis
      by (simp add: NewSphereSDF3_def Let_def Box3_Contains_def V3_Negate_def abs_le_iff)
  qed
  then show ?thesis by (simp add: BoxSound3_def)
qed

lemma NewCutSDF2_sound: "BoxSound2 sdf \<Longrightarrow> BoxSound2 (NewCutSDF2 sdf a v)"
  by (simp add: BoxSound2_def NewCutSDF2_def Let_def Max_f64_def)

lemma NewDifferenceSDF2_sound:
  "BoxSound2 s0 \<Longrightarrow> BoxSound2 (the (NewDifferenceSDF2 (Some s0) (Some s1)))"
  by (simp add: BoxSound2_def NewDifferenceSDF2_def NormalMax_def Max_f64_def)

lemma NewDifferenceSDF3_sound: "BoxSound3 s0 \<Longrightarrow> BoxSound3 (NewDifferenceSDF3 s0 s1)"
  by (simp add: BoxSound3_def NewDifferenceSDF3_def NormalMax_def Max_f64_def)

lemma Box2_Extend_contains:
  "Box2_Contains a p \<or> Box2_Contains b p \<Longrightarrow> Box2_Contains (Box2_Extend a b) p"
  by (auto simp: Box2_Contains_def Box2_Extend_def V2_Min_def V2_Max_def Min_f64_def Max_f64_def)

lemma Box3_Extend_contains:
  "Box3_Contains a p \<or> Box3_Contains b p \<Longrightarrow> Box3_Contains (Box3_Extend a b) p"
  by (auto simp: Box3_Contains_def Box3_Extend_def V3_Min_def V3_Max_def Min_f64_def Max_f64_def)

lemma NewUnionSDF2_sound:
  assumes "BoxSound2 s0" and "BoxSound2 s1"
  shows "BoxSound2 (the (NewUnionSDF2 (Some s0) (Some s1)))"
  using assms
  by (auto simp: BoxSound2_def NewUnionSDF2_def NormalMin_def Min_f64_def min_le_iff_disj
      intro: Box2_Extend_contains)

lemma NewUnionSDF3_sound:
  assumes "BoxSound3 s0" and "BoxSound3 s1"
  shows "BoxSound3 (NewUnionSDF3 s0 s1)"
  using assms
  by (auto simp: BoxSound3_def NewUnionSDF3_def NormalMin_def Min_f64_def min_le_iff_disj
      intro: Box3_Extend_contains)

lemma NewExtrudeSDF3_sound:
  assumes "BoxSound2 sdf"
  shows "BoxSound3 (NewExtrudeSDF3 sdf height)"
proof -
  have "Box3_Contains (BoundingBox3 (NewExtrudeSDF3 sdf height)) p"
    if "Evaluate3 (NewExtrudeSDF3 sdf height) p \<le> 0" for p
  proof -
    from that have e: "Evaluate2 sdf (V2.V2 (V3.X p) (V3.Y p)) \<le> 0" and z: "0 \<le> V3.Z p" "V3.Z p \<le> height"
      by (simp_all add: NewExtrudeSDF3_def Let_def Max_f64_def)
    from assms e have "Box2_Contains (BoundingBox2 sdf) (V2.V2 (V3.X p) (V3.Y p))"
      by (simp add: BoxSound2_def)
    with z show ?thesis
      by (simp add: NewExtrudeSDF3_def Let_def Box2_Contains_def Box3_Contains_def)
  qed
  then show ?thesis by (simp add: BoxSound3_def)
qed


lemma fold_Min_f64_le:
  "fold (\<lambda>posn d. Min_f64 d (f posn)) ps d0 \<le> 0 \<Longrightarrow> d0 \<le> 0 \<or> (\<exists>posn \<in> set ps. f posn \<le> 0)"
proof (induction ps arbitrary: d0)
  case Nil
  then show ?case by simp
next
  case (Cons a ps)
  from Cons.prems have "fold (\<lambda>posn d. Min_f64 d (f posn)) ps (Min_f64 d0 (f a)) \<le> 0"
    by simp
  from Cons.IH [OF this] show ?case
    by (auto simp: Min_f64_def min_le_iff_disj)
qed

lemma fold_V2_Min_le:
  "V2.X (fold (\<lambda>w vmin. V2_Min vmin w) ps v0) \<le> V2.X v0 \<and>
   V2.Y (fold (\<lambda>w vmin. V2_Min vmin w) ps v0) \<le> V2.Y v0 \<and>
   (\<forall>w \<in> set ps. V2.X (fold (\<lambda>w vmin. V2_Min vmin w) ps v0) \<le> V2.X w \<and>
                  V2.Y (fold (\<lambda>w vmin. V2_Min vmin w) ps v0) \<le> V2.Y w)"
proof (induction ps arbitrary: v0)
  case Nil
  show ?case by simp
next
  case (Cons a ps)
  have m: "V2.X (V2_Min v0 a) \<le> V2.X v0" "V2.Y (V2_Min v0 a) \<le> V2.Y v0"
          "V2.X (V2_Min v0 a) \<le> V2.X a" "V2.Y (V2_Min v0 a) \<le> V2.Y a"
    by (simp_all add: V2_Min_def Min_f64_def)
  from Cons.IH [of "V2_Min v0 a"] m show ?case
    by (auto intro: order_trans)
qed

lemma fold_V2_Max_ge:
  "V2.X v0 \<le> V2.X (fold (\<lambda>w vmax. V2_Max vmax w) ps v0) \<and>
   V2.Y v0 \<le> V2.Y (fold (\<lambda>w vmax. V2_Max vmax w) ps v0) \<and>
   (\<forall>w \<in> set ps. V2.X w \<le> V2.X (fold (\<lambda>w vmax. V2_Max vmax w) ps v0) \<and>
                  V2.Y w \<le> V2.Y (fold (\<lambda>w vmax. V2_Max vmax w) ps v0))"
proof (induction ps arbitrary: v0)
  case Nil
  show ?case by simp
next
  case (Cons a ps)
  have m: "V2.X v0 \<le> V2.X (V2_Max v0 a)" "V2.Y v0 \<le> V2.Y (V2_Max v0 a)"
          "V2.X a \<le> V2.X (V2_Max v0 a)" "V2.Y a \<le> V2.Y (V2_Max v0 a)"
    by (simp_all add: V2_Max_def Max_f64_def)
  from Cons.IH [of "V2_Max v0 a"] m show ?case
    by (auto intro: order_trans)
qed

lemma V2Set_Min_le:
  "w \<in> set ps \<Longrightarrow> V2.X (V2Set_Min ps) \<le> V2.X w \<and> V2.Y (V2Set_Min ps) \<le> V2.Y w"
  using fold_V2_Min_le [of ps "hd ps"]
  by (cases ps) (auto simp: V2Set_Min_def)

lemma V2Set_Max_ge:
  "w \<in> set ps \<Longrightarrow> V2.X w \<le> V2.X (V2Set_Max ps) \<and> V2.Y w \<le> V2.Y (V2Set_Max ps)"
  using fold_V2_Max_ge [of "hd ps" ps]
  by (cases ps) (auto simp: V2Set_Max_def)

lemma NewMultiCircleSDF2_sound: "BoxSound2 (NewMultiCircleSDF2 radius positions)"
proof -
  have "Box2_Contains (BoundingBox2 (NewMultiCircleSDF2 radius positions)) p"
    if "Evaluate2 (NewMultiCircleSDF2 radius positions) p \<le> 0" for p
  proof -
    from that
    have "fold (\<lambda>posn d. Min_f64 d (V2_Length (V2_Sub p posn) - radius)) positions MaxFloat64 \<le> 0"
      by (simp add: NewMultiCircleSDF2_def Let_def)
    from fold_Min_f64_le [OF this] MaxFloat64_pos
    obtain posn where posn: "posn \<in> set positions" "V2_Length (V2_Sub p posn) - radius \<le> 0"
      by auto
    from posn(2)
    have "sqrt ((V2.X p - V2.X posn) * (V2.X p - V2.X posn)
              + (V2.Y p - V2.Y posn) * (V2.Y p - V2.Y posn)) \<le> radius"
      by (simp add: V2_Length_def V2_Length2_def V2_Sub_def)
    from sqrt_sum_squares_bound [OF this]
    have near: "\<bar>V2.X p - V2.X posn\<bar> \<le> radius" "\<bar>V2.Y p - V2.Y posn\<bar> \<le> radius"
      by simp_all
    from V2Set_Min_le [OF posn(1)] V2Set_Max_ge [OF posn(1)] near
    have "V2.X (V2Set_Min positions) - radius \<le> V2.X p"
         "V2.X p \<le> V2.X (V2Set_Max positions) + radius"
         "V2.Y (V2Set_Min positions) - radius \<le> V2.Y p"
         "V2.Y p \<le> V2.Y (V2Set_Max positions) + radius"
      by linarith+
    then show ?thesis
      by (simp add: NewMultiCircleSDF2_def Let_def Box2_Contains_def V2_Sub_def V2_Add_def)
  qed
  then show ?thesis by (simp add: BoxSound2_def)
qed

text \<open>A rotate-copy keeps the distance of a point from the origin, so the square around
  the farthest corner of the child's box, whichever corner that is, contains every point
  where the rotate-copy of a sound child is not positive.\<close>

lemma PolarToXY_Length: "V2_Length (PolarToXY r theta) = \<bar>r\<bar>"
proof -
  have "r * cos theta * (r * cos theta) + r * sin theta * (r * sin theta)
        = r * r * (cos theta * cos theta + sin theta * sin theta)"
    by algebra
  also have "\<dots> = r * r"
    by (simp only: sin_cos_squared_add3 mult_1_right)
  finally have "sqrt (r * cos theta * (r * cos theta) + r * sin theta * (r * sin theta)) = \<bar>r\<bar>"
    by simp
  then show ?thesis
    by (simp only: V2_Length_def V2_Length2_def PolarToXY_def V2.sel)
qed

lemma V2_Length_ge_abs: "\<bar>V2.X p\<bar> \<le> V2_Length p \<and> \<bar>V2.Y p\<bar> \<le> V2_Length p"
  using sqrt_sum_squares_bound [of "V2.X p" "V2.Y p" "V2_Length p"]
  by (simp add: V2_Length_def V2_Length2_def)

lemma square_le_of_between:
  fixes x l h :: real
  assumes "l \<le> x" and "x \<le> h"
  shows "x * x \<le> l * l \<or> x * x \<le> h * h"
proof (cases "0 \<le> x")
  case True
  with assms have "x * x \<le> h * h" by (simp add: mult_mono)
  then show ?thesis by simp
next
  case False
  with assms have "(- x) * (- x) \<le> (- l) * (- l)" by (intro mult_mono) simp_all
  then show ?thesis by simp
qed

lemma Box2_Contains_Length:
  assumes "Box2_Contains bb q"
  shows "V2_Length q \<le> FarCornerLength bb"
proof -
  obtain lx ly hx hy where bb: "bb = Box2 (V2.V2 lx ly) (V2.V2 hx hy)"
    by (cases bb; cases "Box2.Min bb"; cases "Box2.Max bb") simp
  obtain x y where q: "q = V2.V2 x y" by (cases q)
  from assms have b: "lx \<le> x" "x \<le> hx" "ly \<le> y" "y \<le> hy"
    by (simp_all add: bb q Box2_Contains_def)
  from square_le_of_between [OF b(1,2)] square_le_of_between [OF b(3,4)]
  have "x * x + y * y \<le> lx * lx + ly * ly \<or> x * x + y * y \<le> hx * hx + ly * ly \<or>
        x * x + y * y \<le> lx * lx + hy * hy \<or> x * x + y * y \<le> hx * hx + hy * hy"
    by linarith
  then show ?thesis
    by (auto simp: bb q FarCornerLength_def Box2_Vertices_def V2_Length_def V2_Length2_def
        Max_f64_def le_max_iff_disj)
qed

lemma rotate_copy_far_corner_sound:
  assumes "BoxSound2 sdf" and "Evaluate2 (RotateCopySDF2 sdf theta bb) p \<le> 0"
  shows "Box2_Contains (Box2 (V2.V2 (- FarCornerLength (BoundingBox2 sdf)) (- FarCornerLength (BoundingBox2 sdf)))
                             (V2.V2 (FarCornerLength (BoundingBox2 sdf)) (FarCornerLength (BoundingBox2 sdf)))) p"
proof -
  let ?pnew = "PolarToXY (V2_Length p) (SawTooth (Atan2 (V2.Y p) (V2.X p)) theta)"
  from assms(2) have "Evaluate2 sdf ?pnew \<le> 0" by (simp add: Let_def)
  with assms(1) have "Box2_Contains (BoundingBox2 sdf) ?pnew" by (simp add: BoxSound2_def)
  then have "V2_Length ?pnew \<le> FarCornerLength (BoundingBox2 sdf)" by (rule Box2_Contains_Length)
  moreover have "0 \<le> V2_Length p" by (simp add: V2_Length_def V2_Length2_def)
  ultimately have "V2_Length p \<le> FarCornerLength (BoundingBox2 sdf)"
    by (simp add: PolarToXY_Length)
  with V2_Length_ge_abs [of p] show ?thesis
    by (simp add: Box2_Contains_def abs_le_iff)
qed

text \<open>The single copy of the unit circle around \<open>(0, -10)\<close>, evaluated at its centre \<open>(0, -10)\<close>.\<close>

lemma rotate_copy_example:
  "NewRotateCopySDF2 (NewMultiCircleSDF2 1 [V2.V2 0 (- 10)]) 1 \<noteq> None \<and>
   Evaluate2 (NewMultiCircleSDF2 1 [V2.V2 0 (- 10)]) (V2.V2 0 (- 10)) = - 1 \<and>
   Box2_Contains (BoundingBox2 (NewMultiCircleSDF2 1 [V2.V2 0 (- 10)])) (V2.V2 0 (- 10)) \<and>
   Evaluate2 (the (NewRotateCopySDF2 (NewMultiCircleSDF2 1 [V2.V2 0 (- 10)]) 1)) (V2.V2 0 (- 10)) = - 1 \<and>
   BoundingBox2 (the (NewRotateCopySDF2 (NewMultiCircleSDF2 1 [V2.V2 0 (- 10)]) 1))
     = Box2 (V2.V2 (- sqrt 82) (- sqrt 82)) (V2.V2 (sqrt 82) (sqrt 82)) \<and>
   \<not> Box2_Contains (BoundingBox2 (the (NewRotateCopySDF2 (NewMultiCircleSDF2 1 [V2.V2 0 (- 10)]) 1)))
        (V2.V2 0 (- 10))"
proof -
  let ?c = "NewMultiCircleSDF2 1 [V2.V2 0 (- 10)]"
  have c: "?c = MultiCircleSDF2 1 [V2.V2 0 (- 10)] (Box2 (V2.V2 (- 1) (- 11)) (V2.V2 1 (- 9)))"
    by (simp add: NewMultiCircleSDF2_def V2Set_Min_def V2Set_Max_def V2_Min_def V2_Max_def
        Min_f64_def Max_f64_def V2_Sub_def V2_Add_def Let_def)
  have ev: "Evaluate2 ?c (V2.V2 0 (- 10)) = - 1"
    using MaxFloat64_pos
    by (simp add: c V2_Sub_def V2_Length_def V2_Length2_def Min_f64_def)
  have inbox: "Box2_Contains (BoundingBox2 ?c) (V2.V2 0 (- 10))"
    by (simp add: c Box2_Contains_def)
  have len: "V2_Length (V2.V2 1 (- 9)) = sqrt 82"
    by (simp add: V2_Length_def V2_Length2_def)
  have rc: "NewRotateCopySDF2 ?c 1
      = Some (RotateCopySDF2 ?c TAU (Box2 (V2.V2 (- sqrt 82) (- sqrt 82)) (V2.V2 (sqrt 82) (sqrt 82))))"
    by (simp add: NewRotateCopySDF2_def Let_def c len)
  have l10: "V2_Length (V2.V2 0 (- 10)) = 10"
  proof -
    have "sqrt (100 :: real) = sqrt (10\<^sup>2)" by simp
    then have "sqrt (100 :: real) = 10" by (simp only: real_sqrt_abs)
    then show ?thesis by (simp add: V2_Length_def V2_Length2_def)
  qed
  have at: "Atan2 (- 10) 0 = - (pi / 2)"
    by (simp add: Atan2_def)
  have cs: "cos (3 * pi / 2) = 0" "sin (3 * pi / 2) = - 1"
    using cos_3over2_pi sin_3over2_pi by (simp_all add: mult.commute)
  have pnew: "PolarToXY (V2_Length (V2.V2 0 (- 10))) (SawTooth (Atan2 (- 10) 0) TAU) = V2.V2 0 (- 10)"
    by (simp add: l10 at SawTooth_quarter PolarToXY_def cs)
  have ev_rc: "Evaluate2 (the (NewRotateCopySDF2 ?c 1)) (V2.V2 0 (- 10)) = - 1"
    using ev by (simp add: rc pnew)
  have out: "\<not> Box2_Contains (BoundingBox2 (the (NewRotateCopySDF2 ?c 1))) (V2.V2 0 (- 10))"
    using sqrt_82_less_10 by (simp add: rc Box2_Contains_def)
  from rc ev inbox ev_rc out show ?thesis by simp
qed

text \<open>The child of the example is sound and its rotate-copy is not.\<close>

lemma rotate_copy_not_sound:
  "BoxSound2 (NewMultiCircleSDF2 1 [V2.V2 0 (- 10)]) \<and>
   \<not> BoxSound2 (the (NewRotateCopySDF2 (NewMultiCircleSDF2 1 [V2.V2 0 (- 10)]) 1))"
proof -
  have "\<not> BoxSound2 (the (NewRotateCopySDF2 (NewMultiCircleSDF2 1 [V2.V2 0 (- 10)]) 1))"
    unfolding BoxSound2_def using rotate_copy_example by force
  then show ?thesis by (simp add: NewMultiCircleSDF2_sound)
qed

text \<open>
  Claim C1. The box of a node has to contain every point where the node evaluates to a
  distance that is not positive, and this has to hold for \<open>RotateCopySDF2\<close>, whose box is
  the square of half-width \<open>|bb.Max|\<close> of the child. It does not. The child
  \<open>NewMultiCircleSDF2(1, {(0, -10)})\<close>, the unit circle around \<open>(0, -10)\<close>, has the box
  \<open>[(-1, -11), (1, -9)]\<close> and evaluates to \<open>-1\<close> at its centre. Its single copy
  \<open>NewRotateCopySDF2(child, 1)\<close> evaluates to \<open>-1\<close> there as well: with one copy the period
  is the full turn, and the reduced angle names the direction of the point itself. The box
  of the copy is \<open>[-sqrt 82, sqrt 82]\<^sup>2\<close>, since \<open>|bb.Max| = |(1, -9)|\<close>, and does not contain
  \<open>(0, -10)\<close>: the far corner of the child's box is \<open>Min\<close>, not \<open>Max\<close>.
\<close>

theorem rotate_copy_box_misses_point:
  "NewRotateCopySDF2 (NewMultiCircleSDF2 1 [V2.V2 0 (- 10)]) 1 \<noteq> None \<and>
   Evaluate2 (NewMultiCircleSDF2 1 [V2.V2 0 (- 10)]) (V2.V2 0 (- 10)) = - 1 \<and>
   Box2_Contains (BoundingBox2 (NewMultiCircleSDF2 1 [V2.V2 0 (- 10)])) (V2.V2 0 (- 10)) \<and>
   Evaluate2 (the (NewRotateCopySDF2 (NewMultiCircleSDF2 1 [V2.V2 0 (- 10)]) 1)) (V2.V2 0 (- 10)) = - 1 \<and>
   BoundingBox2 (the (NewRotateCopySDF2 (NewMultiCircleSDF2 1 [V2.V2 0 (- 10)]) 1))
     = Box2 (V2.V2 (- sqrt 82) (- sqrt 82)) (V2.V2 (sqrt 82) (sqrt 82)) \<and>
   \<not> Box2_Contains (BoundingBox2 (the (NewRotateCopySDF2 (NewMultiCircleSDF2 1 [V2.V2 0 (- 10)]) 1)))
        (V2.V2 0 (- 10))"
  by (rule rotate_copy_example)

subsection \<open>The vertex indices of \<open>Save3MF\<close>\<close>

lemma dedupe_vertices_fold:
  "dedupe_vertices mesh = fold assign_index (mesh_vertices mesh) []"
proof -
  have "fold (\<lambda>t vertices. fold assign_index (Triangle3_V t) vertices) mesh m
        = fold assign_index (concat (map Triangle3_V mesh)) m" for m
    by (induction mesh arbitrary: m) simp_all
  then show ?thesis
    by (simp add: dedupe_vertices_def mesh_vertices_def)
qed

lemma length_update:
  "length (AList.update k v al) = (if k \<in> fst ` set al then length al else Suc (length al))"
  by (induction al) auto

lemma update_fresh: "k \<notin> fst ` set al \<Longrightarrow> AList.update k v al = al @ [(k, v)]"
  by (induction al) auto

lemma update_mem: "(k, v) \<in> set (AList.update k v al)"
  by (induction al) auto

lemma update_set_subset: "set (AList.update k v al) \<subseteq> insert (k, v) (set al)"
  by (induction al) auto

lemma fold_assign_snoc:
  "fold assign_index (xs @ [x]) []
     = AList.update x (int (length (fold assign_index xs []))) (fold assign_index xs [])"
  by (simp add: assign_index_def)

lemma keys_fold_assign: "fst ` set (fold assign_index vs []) = set vs"
proof (induction vs rule: rev_induct)
  case Nil
  show ?case by simp
next
  case (snoc x xs)
  then show ?case by (simp only: fold_assign_snoc dom_update) simp
qed

lemma index_bound_fold_assign:
  "(v, i) \<in> set (fold assign_index vs []) \<Longrightarrow> 0 \<le> i \<and> i \<le> int (length (fold assign_index vs []))"
proof (induction vs arbitrary: v i rule: rev_induct)
  case Nil
  then show ?case by simp
next
  case (snoc x xs)
  let ?m = "fold assign_index xs []"
  from snoc.prems have "(v, i) \<in> set (AList.update x (int (length ?m)) ?m)"
    by (simp only: fold_assign_snoc)
  with update_set_subset have "(v, i) = (x, int (length ?m)) \<or> (v, i) \<in> set ?m"
    by fastforce
  moreover have "length ?m \<le> length (AList.update x (int (length ?m)) ?m)"
    by (simp add: length_update)
  ultimately show ?case
    using snoc.IH [of v i] unfolding fold_assign_snoc by auto
qed


lemma write_vertices_None:
  "(write_vertices es out = None) = out_of_range es (length out)"
  by (induction es out rule: write_vertices.induct) (auto simp: out_of_range_def)

lemma out_of_range_fold_assign:
  "out_of_range (fold assign_index vs []) (length (fold assign_index vs []))
     = (vs \<noteq> [] \<and> last vs \<in> set (butlast vs))"
proof (cases vs rule: rev_cases)
  case Nil
  then show ?thesis by (simp add: out_of_range_def)
next
  case (snoc xs x)
  let ?m = "fold assign_index xs []"
  let ?m' = "AList.update x (int (length ?m)) ?m"
  have m': "fold assign_index vs [] = ?m'"
    unfolding snoc by (rule fold_assign_snoc)
  have rhs: "(vs \<noteq> [] \<and> last vs \<in> set (butlast vs)) = (x \<in> set xs)"
    by (simp add: snoc)
  have key: "out_of_range ?m' (length ?m') = (x \<in> set xs)"
  proof (cases "x \<in> set xs")
    case True
    then have "length ?m' = length ?m"
      by (simp add: length_update keys_fold_assign)
    moreover have "(x, int (length ?m)) \<in> set ?m'"
      by (rule update_mem)
    ultimately have "out_of_range ?m' (length ?m')"
      by (auto simp: out_of_range_def)
    with True show ?thesis by simp
  next
    case False
    then have fresh: "?m' = ?m @ [(x, int (length ?m))]"
      by (simp add: update_fresh keys_fold_assign)
    have "\<not> out_of_range ?m' (length ?m')"
      unfolding fresh using index_bound_fold_assign [of _ _ xs]
      by (fastforce simp: out_of_range_def)
    with False show ?thesis by simp
  qed
  show ?thesis
    unfolding m' rhs by (rule key)
qed

lemma distinct_fold_assign: "distinct (map fst (fold assign_index vs []))"
proof (induction vs rule: rev_induct)
  case Nil
  show ?case by simp
next
  case (snoc x xs)
  then show ?case
    by (simp only: fold_assign_snoc distinct_update)
qed

lemma length_fold_assign: "length (fold assign_index vs []) = card (set vs)"
proof -
  have "length (fold assign_index vs []) = length (map fst (fold assign_index vs []))"
    by simp
  also have "\<dots> = card (set (map fst (fold assign_index vs [])))"
    by (rule distinct_card [symmetric]) (rule distinct_fold_assign)
  also have "set (map fst (fold assign_index vs [])) = set vs"
    using keys_fold_assign [of vs] by simp
  finally show ?thesis .
qed

lemma map_index_last_repeated:
  assumes "vs \<noteq> []" and "last vs \<in> set (butlast vs)"
  shows "map_index (fold assign_index vs []) (last vs) = int (length (fold assign_index vs []))"
proof -
  from assms(1) obtain xs x where vs: "vs = xs @ [x]"
    by (cases vs rule: rev_cases) auto
  let ?m = "fold assign_index xs []"
  from assms(2) have "x \<in> fst ` set ?m"
    by (simp add: vs keys_fold_assign)
  then have len: "length (AList.update x (int (length ?m)) ?m) = length ?m"
    by (simp add: length_update)
  have "map_of (AList.update x (int (length ?m)) ?m) x = Some (int (length ?m))"
    by (simp add: update_conv')
  then show ?thesis
    unfolding vs fold_assign_snoc by (simp add: map_index_def len)
qed

text \<open>
  Claim C10, as amended. There are triangle lists on which the vertex indexing of \<open>Save3MF\<close>
  goes out of bounds. When the file has been created, the write \<open>outputVertices[i]\<close>
  panics exactly when the last vertex of the last triangle repeats an earlier vertex
  position, in whatever order \<open>range\<close> visits the map: that vertex is then re-assigned
  \<open>len(vertices)\<close>, the number of distinct positions, as its index. A mesh of distinct vertex
  positions is indexed within bounds, and so is a mesh with repeated positions whose last
  vertex is new.
\<close>

theorem save3mf_index_out_of_range:
  assumes "\<forall>m. set (range_order m) = set m"
  shows "(Save3MF None range_order path mesh = Inl IndexOutOfRange)
           = (mesh_vertices mesh \<noteq> [] \<and> last (mesh_vertices mesh) \<in> set (butlast (mesh_vertices mesh)))
         \<and> (mesh_vertices mesh \<noteq> [] \<and> last (mesh_vertices mesh) \<in> set (butlast (mesh_vertices mesh))
              \<longrightarrow> map_index (dedupe_vertices mesh) (last (mesh_vertices mesh))
                    = int (length (dedupe_vertices mesh)))
         \<and> length (dedupe_vertices mesh) = card (set (mesh_vertices mesh))
         \<and> (distinct (mesh_vertices mesh) \<longrightarrow> Save3MF None range_order path mesh \<noteq> Inl IndexOutOfRange)"
proof -
  let ?vs = "mesh_vertices mesh"
  let ?m = "dedupe_vertices mesh"
  have "(Save3MF None range_order path mesh = Inl IndexOutOfRange)
      = (write_vertices (range_order ?m)
           (replicate (length ?m) \<lparr>ThreeMFVertex.X = 0, ThreeMFVertex.Y = 0, ThreeMFVertex.Z = 0\<rparr>) = None)"
    by (simp add: Save3MF_def Let_def split: option.splits)
  also have "\<dots> = out_of_range (range_order ?m) (length ?m)"
    by (simp add: write_vertices_None)
  also have "\<dots> = out_of_range ?m (length ?m)"
    using assms by (simp add: out_of_range_def)
  also have "\<dots> = (?vs \<noteq> [] \<and> last ?vs \<in> set (butlast ?vs))"
    by (simp add: dedupe_vertices_fold out_of_range_fold_assign)
  finally have main: "(Save3MF None range_order path mesh = Inl IndexOutOfRange)
      = (?vs \<noteq> [] \<and> last ?vs \<in> set (butlast ?vs))" .
  have index: "map_index ?m (last ?vs) = int (length ?m)"
    if "?vs \<noteq> [] \<and> last ?vs \<in> set (butlast ?vs)"
    using that by (simp add: dedupe_vertices_fold map_index_last_repeated)
  have len: "length ?m = card (set ?vs)"
    by (simp add: dedupe_vertices_fold length_fold_assign)
  have "\<not> (?vs \<noteq> [] \<and> last ?vs \<in> set (butlast ?vs))" if "distinct ?vs"
  proof (cases ?vs rule: rev_cases)
    case Nil
    then show ?thesis by simp
  next
    case (snoc xs x)
    with that show ?thesis by simp
  qed
  with main index len show ?thesis by blast
qed

text \<open>A triangle whose first and third vertices coincide is out of range: two distinct
  positions, and the repeated one carries the index 2. A triangle of three distinct
  vertices is not.\<close>

theorem save3mf_index_out_of_range_witness:
  "(\<forall>m :: vertex_map. set (id m) = set m) \<and>
   Save3MF None id ''mesh.3mf'' [Triangle3 (V3.V3 0 0 0) (V3.V3 1 0 0) (V3.V3 0 0 0)]
     = Inl IndexOutOfRange \<and>
   map_index (dedupe_vertices [Triangle3 (V3.V3 0 0 0) (V3.V3 1 0 0) (V3.V3 0 0 0)]) (V3.V3 0 0 0) = 2 \<and>
   length (dedupe_vertices [Triangle3 (V3.V3 0 0 0) (V3.V3 1 0 0) (V3.V3 0 0 0)]) = 2 \<and>
   distinct (mesh_vertices [Triangle3 (V3.V3 0 0 0) (V3.V3 1 0 0) (V3.V3 0 1 0)]) \<and>
   Save3MF None id ''mesh.3mf'' [Triangle3 (V3.V3 0 0 0) (V3.V3 1 0 0) (V3.V3 0 1 0)]
     \<noteq> Inl IndexOutOfRange"
proof -
  have h: "\<forall>m :: vertex_map. set (id m) = set m" by simp
  have d: "dedupe_vertices [Triangle3 (V3.V3 0 0 0) (V3.V3 1 0 0) (V3.V3 0 0 0)]
             = [(V3.V3 0 0 0, 2), (V3.V3 1 0 0, 1)]"
    by (simp add: dedupe_vertices_def assign_index_def)
  show ?thesis
    using h save3mf_index_out_of_range [OF h, of "''mesh.3mf''" "[Triangle3 (V3.V3 0 0 0) (V3.V3 1 0 0) (V3.V3 0 0 0)]"]
      save3mf_index_out_of_range [OF h, of "''mesh.3mf''" "[Triangle3 (V3.V3 0 0 0) (V3.V3 1 0 0) (V3.V3 0 1 0)]"]
    by (simp add: mesh_vertices_def id_def d map_index_def)
qed

text \<open>Claim C10 as stated says that only meshes of distinct vertex positions are indexed
  within bounds. Two triangles \<open>(a, b, c)\<close> and \<open>(a, b, d)\<close> that share an edge repeat two
  positions and are indexed within bounds: the map ends as \<open>{a: 3, b: 3, c: 2, d: 3}\<close> for a
  slice of length 4.\<close>

theorem save3mf_repeated_vertex_within_bounds:
  "\<not> distinct (mesh_vertices [Triangle3 (V3.V3 0 0 0) (V3.V3 1 0 0) (V3.V3 0 1 0),
                               Triangle3 (V3.V3 0 0 0) (V3.V3 1 0 0) (V3.V3 0 0 1)]) \<and>
   dedupe_vertices [Triangle3 (V3.V3 0 0 0) (V3.V3 1 0 0) (V3.V3 0 1 0),
                    Triangle3 (V3.V3 0 0 0) (V3.V3 1 0 0) (V3.V3 0 0 1)]
     = [(V3.V3 0 0 0, 3), (V3.V3 1 0 0, 3), (V3.V3 0 1 0, 2), (V3.V3 0 0 1, 3)] \<and>
   Save3MF None id ''mesh.3mf'' [Triangle3 (V3.V3 0 0 0) (V3.V3 1 0 0) (V3.V3 0 1 0),
                                  Triangle3 (V3.V3 0 0 0) (V3.V3 1 0 0) (V3.V3 0 0 1)]
     \<noteq> Inl IndexOutOfRange"
  by (simp add: mesh_vertices_def Save3MF_def dedupe_vertices_def assign_index_def Let_def)

end
